theory Spec2Isabelle
  imports Complex_Main "HOL-Library.Sublist" "HOL-Library.AList"
begin

section \<open>Acoustic arousal classification (services/audio_processor.py)\<close>

text \<open>
  A Python float is modelled by the exact rational value of the double it holds, with the
  three special values of IEEE arithmetic. A decimal literal of the source denotes the
  double nearest to it, so the thresholds below are the exact values of those doubles.
\<close>

datatype pyfloat = NaN | NegInf | Fin rat | PosInf

text \<open>Python's \<open>a >= b\<close> on floats: every comparison with NaN is false.\<close>

fun float_ge :: "pyfloat \<Rightarrow> pyfloat \<Rightarrow> bool" where
  "float_ge NaN b = False"
| "float_ge a NaN = False"
| "float_ge PosInf b = True"
| "float_ge a NegInf = True"
| "float_ge NegInf b = False"
| "float_ge (Fin x) PosInf = False"
| "float_ge (Fin x) (Fin y) = (y \<le> x)"

text \<open>\<open>HIGH_ENERGY_THRESHOLD = 0.65\<close>: the double nearest to 0.65.\<close>

definition HIGH_ENERGY_THRESHOLD :: pyfloat where
  "HIGH_ENERGY_THRESHOLD = Fin (5854679515581645 / 2 ^ 53)"

text \<open>\<open>MEDIUM_ENERGY_THRESHOLD = 0.35\<close>: the double nearest to 0.35.\<close>

definition MEDIUM_ENERGY_THRESHOLD :: pyfloat where
  "MEDIUM_ENERGY_THRESHOLD = Fin (3152519739159347 / 2 ^ 53)"

text \<open>\<open>HIGH_PITCH_THRESHOLD = 210.0\<close> (exact).\<close>

definition HIGH_PITCH_THRESHOLD :: pyfloat where
  "HIGH_PITCH_THRESHOLD = Fin 210"

text \<open>
  \<^verbatim>\<open>
  def _classify_arousal(energy, pitch):
      if energy >= HIGH_ENERGY_THRESHOLD and pitch >= HIGH_PITCH_THRESHOLD:
          return "High"
      elif energy >= MEDIUM_ENERGY_THRESHOLD:
          return "Medium"
      return "Low"
  \<close>
\<close>

definition classify_arousal :: "pyfloat \<Rightarrow> pyfloat \<Rightarrow> string" where
  "classify_arousal energy pitch =
     (if float_ge energy HIGH_ENERGY_THRESHOLD \<and> float_ge pitch HIGH_PITCH_THRESHOLD
      then ''High''
      else if float_ge energy MEDIUM_ENERGY_THRESHOLD then ''Medium''
      else ''Low'')"

text \<open>The doubles denoted by the literals \<open>209.9\<close> and \<open>0.34\<close> of the boundary tests.\<close>

definition lit_209_9 :: pyfloat where
  "lit_209_9 = Fin (7385199701445837 / 2 ^ 45)"

definition lit_0_34 :: pyfloat where
  "lit_0_34 = Fin (6124895493223875 / 2 ^ 54)"


section \<open>Lexical tone classification (services/audio_processor.py)\<close>

text \<open>
  A Python \<open>str\<close> is modelled by its UTF-8 bytes. A substring test on code points is a
  substring test on the bytes, since no encoded character occurs inside another.

  \<open>lower\<close> is \<open>str.lower()\<close> on ASCII text: the letters A to Z move to a to z, every other
  byte is kept. On text with other code points \<open>str.lower()\<close> applies the Unicode case
  mapping of the interpreter (the KELVIN SIGN becomes \<open>k\<close>), which \<open>lower\<close> does not follow;
  the tone classifier below therefore takes the interpreter's \<open>str.lower\<close> as a parameter.
\<close>

definition lower_char :: "char \<Rightarrow> char" where
  "lower_char c =
     (let n = (of_char c :: nat)
      in if 65 \<le> n \<and> n \<le> 90 then char_of (n + 32) else c)"

definition lower :: "string \<Rightarrow> string" where
  "lower s = map lower_char s"

text \<open>Python's \<open>s in text\<close> on strings: \<open>s\<close> occurs as a contiguous substring.\<close>

fun is_substring :: "string \<Rightarrow> string \<Rightarrow> bool" where
  "is_substring s [] = (s = [])"
| "is_substring s (c # cs) = (prefix s (c # cs) \<or> is_substring s cs)"

definition POSITIVE_STEMS :: "string list" where
  "POSITIVE_STEMS =
     [''thank'', ''great'', ''good'', ''happy'', ''perfect'', ''nice'', ''appreciat'',
      ''wonderful'', ''excellent'', ''okay'', ''sure'', ''fine'', ''alright'',
      ''help'', ''assist'', ''solut'', ''resolv'', ''understand'', ''pleasant'',
      ''cooperat'', ''willing'', ''absolut'', ''certainly'', ''of course'']"

definition ANGRY_STEMS :: "string list" where
  "ANGRY_STEMS =
     [''angr'', ''upset'', ''frustrat'', ''annoy'', ''complain'',
      ''terribl'', ''horribl'', ''unacceptabl'', ''ridicul'',
      ''useless'', ''fraud'', ''scam'', ''cheat'', ''liar'', ''threaten'', ''threat'',
      ''demand'', ''refus'', ''impossib'', ''wrong'', ''mistak'',
      ''harass'', ''abuse'', ''abusiv'', ''insult'', ''stupid'', ''idiot'',
      ''nonsense'', ''enough'', ''fed up'', ''shut up'', ''get out'',
      ''illegal'', ''police'', ''jail'', ''arrest'', ''legal action'']"

definition FEARFUL_STEMS :: "string list" where
  "FEARFUL_STEMS =
     [''afraid'', ''scar'', ''worr'', ''anxious'', ''nervous'', ''panic'',
      ''fear'', ''stress'', ''concern'', ''uncertain'', ''confus'', ''lost'',
      ''pleas don'', ''beg'', ''mercy'', ''please don'' @ [CHR 0x27] @ ''t'', ''please stop'']"

definition URGENT_STEMS :: "string list" where
  "URGENT_STEMS =
     [''immediately'', ''asap'', ''urgent'', ''right away'', ''right now'',
      ''quick'', ''deadlin'', ''overd'', ''final notice'', ''last chance'',
      ''warning'', ''must pay'', ''pay now'', ''today itself'']"

text \<open>
  \<^verbatim>\<open>
  def _stem_score(text_lower, stems):
      return sum(1 for s in stems if s in text_lower)
  \<close>
  The score is the number of lexicon entries that occur in the text; an entry that occurs
  several times counts once.
\<close>

definition stem_score :: "string \<Rightarrow> string list \<Rightarrow> nat" where
  "stem_score text_lower stems = length (filter (\<lambda>s. is_substring s text_lower) stems)"

text \<open>
  \<^verbatim>\<open>
  def classify_tone(message):
      text = message.lower()
      angry_score = _stem_score(text, ANGRY_STEMS)
      positive_score = _stem_score(text, POSITIVE_STEMS)
      fearful_score = _stem_score(text, FEARFUL_STEMS)
      urgent_score = _stem_score(text, URGENT_STEMS)
      if angry_score >= 1 and angry_score >= positive_score:
          return "angry/frustrated"
      if fearful_score >= 1:
          return "fearful/anxious"
      if urgent_score >= 1:
          return "urgent"
      if positive_score >= 1:
          return "positive"
      return "neutral"
  \<close>
  \<open>message.lower()\<close> is the application of the parameter \<open>str_lower\<close>.
\<close>

definition classify_tone :: "(string \<Rightarrow> string) \<Rightarrow> string \<Rightarrow> string" where
  "classify_tone str_lower message =
     (let text = str_lower message;
          angry_score = stem_score text ANGRY_STEMS;
          positive_score = stem_score text POSITIVE_STEMS;
          fearful_score = stem_score text FEARFUL_STEMS;
          urgent_score = stem_score text URGENT_STEMS
      in if angry_score \<ge> 1 \<and> angry_score \<ge> positive_score then ''angry/frustrated''
         else if fearful_score \<ge> 1 then ''fearful/anxious''
         else if urgent_score \<ge> 1 then ''urgent''
         else if positive_score \<ge> 1 then ''positive''
         else ''neutral'')"

text \<open>Text whose code points are all ASCII; on such text \<open>str.lower()\<close> is \<open>lower\<close>.\<close>

definition ascii_text :: "string \<Rightarrow> bool" where
  "ascii_text s = list_all (\<lambda>c. (of_char c :: nat) < 128) s"

text \<open>
  The specification's reading of a lexicon count, "substring occurrences": the number of
  places of the text at which some entry of the lexicon occurs.
\<close>

fun occurrences :: "string \<Rightarrow> string \<Rightarrow> nat" where
  "occurrences s [] = (if s = [] then 1 else 0)"
| "occurrences s (c # cs) = (if prefix s (c # cs) then 1 else 0) + occurrences s cs"

definition occurrence_score :: "string \<Rightarrow> string list \<Rightarrow> nat" where
  "occurrence_score text_lower stems = sum_list (map (\<lambda>s. occurrences s text_lower) stems)"

section \<open>Python values\<close>

text \<open>
  The values \<open>json.loads\<close> returns: \<open>None\<close>, booleans, integers, floats, strings,
  lists and dicts. A dict is an association list in insertion order, read and written
  through \<open>map_of\<close> and \<open>AList.update\<close>.
\<close>

datatype json =
    JNull
  | JBool bool
  | JInt int
  | JFloat pyfloat
  | JStr string
  | JArr "json list"
  | JObj "(string \<times> json) list"

datatype py_error = TypeError | AttributeError | OverflowError | ValueError

type_synonym dict = "(string \<times> json) list"

text \<open>\<open>d.get(k)\<close> and \<open>d.get(k, default)\<close>.\<close>

definition dict_get :: "dict \<Rightarrow> string \<Rightarrow> json option" where
  "dict_get d k = map_of d k"

definition dict_get_default :: "dict \<Rightarrow> string \<Rightarrow> json \<Rightarrow> json" where
  "dict_get_default d k dflt = (case map_of d k of None \<Rightarrow> dflt | Some v \<Rightarrow> v)"

text \<open>\<open>d[k] = v\<close>: an existing key keeps its place, a new key goes to the end.\<close>

definition dict_set :: "dict \<Rightarrow> string \<Rightarrow> json \<Rightarrow> dict" where
  "dict_set d k v = AList.update k v d"

text \<open>Decimal numerals, as \<open>str\<close> prints an \<open>int\<close>.\<close>

definition digit_char :: "nat \<Rightarrow> char" where
  "digit_char d = char_of (48 + d)"

fun show_nat :: "nat \<Rightarrow> string" where
  "show_nat n = (if n < 10 then [digit_char n] else show_nat (n div 10) @ [digit_char (n mod 10)])"

declare show_nat.simps [simp del]

definition show_int :: "int \<Rightarrow> string" where
  "show_int i = (if i < 0 then CHR ''-'' # show_nat (nat (- i)) else show_nat (nat i))"

text \<open>
  \<open>repr\<close> of a string, on printable ASCII: single quotes, unless the string holds a single
  quote and no double quote; the quote in use and the backslash are escaped.
  (Control characters and non-ASCII text, which \<open>repr\<close> escapes or keeps by Unicode
  category, are left as they are here; \<open>repr\<close> of a string is only reached for strings
  inside a list or a dict.)
\<close>

definition repr_str :: "string \<Rightarrow> string" where
  "repr_str s =
     (let q = (if CHR 0x27 \<in> set s \<and> CHR 0x22 \<notin> set s then CHR 0x22 else CHR 0x27)
      in [q] @ concat (map (\<lambda>c. if c = q \<or> c = CHR 0x5C then [CHR 0x5C, c] else [c]) s) @ [q])"

text \<open>\<open>'', ''.join(parts)\<close>.\<close>

fun join_comma :: "string list \<Rightarrow> string" where
  "join_comma [] = []"
| "join_comma [x] = x"
| "join_comma (x # y # ys) = x @ '', '' @ join_comma (y # ys)"

text \<open>
  \<open>repr(x)\<close>, which \<open>str\<close> of a list or a dict applies to the members. The shortest
  round-trip numeral that Python prints for a float comes from the interpreter, not from
  this repository: it is the parameter \<open>float_repr\<close>.
\<close>

fun py_repr :: "(pyfloat \<Rightarrow> string) \<Rightarrow> json \<Rightarrow> string" where
  "py_repr float_repr JNull = ''None''"
| "py_repr float_repr (JBool b) = (if b then ''True'' else ''False'')"
| "py_repr float_repr (JInt i) = show_int i"
| "py_repr float_repr (JFloat f) = float_repr f"
| "py_repr float_repr (JStr s) = repr_str s"
| "py_repr float_repr (JArr xs) = ''['' @ join_comma (map (py_repr float_repr) xs) @ '']''"
| "py_repr float_repr (JObj kvs) =
     ''{'' @ join_comma (map (\<lambda>kv. repr_str (fst kv) @ '': '' @ py_repr float_repr (snd kv)) kvs)
       @ ''}''"

text \<open>\<open>str(x)\<close>: a string is itself, every other value prints as its \<open>repr\<close>.\<close>

definition py_str :: "(pyfloat \<Rightarrow> string) \<Rightarrow> json \<Rightarrow> string" where
  "py_str float_repr x = (case x of JStr s \<Rightarrow> s | _ \<Rightarrow> py_repr float_repr x)"

text \<open>\<open>type(x).__name__\<close>, as it appears in the messages of TypeError and AttributeError.\<close>

fun type_name :: "json \<Rightarrow> string" where
  "type_name JNull = ''NoneType''"
| "type_name (JBool b) = ''bool''"
| "type_name (JInt i) = ''int''"
| "type_name (JFloat f) = ''float''"
| "type_name (JStr s) = ''str''"
| "type_name (JArr xs) = ''list''"
| "type_name (JObj kvs) = ''dict''"

text \<open>Truth value of an object in \<open>if x\<close>, \<open>not x\<close>, \<open>x or y\<close>.\<close>

fun truthy :: "json \<Rightarrow> bool" where
  "truthy JNull = False"
| "truthy (JBool b) = b"
| "truthy (JInt i) = (i \<noteq> 0)"
| "truthy (JFloat f) = (f \<noteq> Fin 0)"
| "truthy (JStr s) = (s \<noteq> [])"
| "truthy (JArr xs) = (xs \<noteq> [])"
| "truthy (JObj kvs) = (kvs \<noteq> [])"

text \<open>\<open>len(x)\<close>: defined on strings, lists and dicts, a TypeError on the rest.\<close>

fun py_len :: "json \<Rightarrow> py_error + nat" where
  "py_len (JStr s) = Inr (length s)"
| "py_len (JArr xs) = Inr (length xs)"
| "py_len (JObj kvs) = Inr (length kvs)"
| "py_len x = Inl TypeError"

text \<open>
  \<open>for v in x\<close>: a list yields its members, a string its characters, a dict its keys;
  the other values are not iterable.
\<close>

fun py_iter :: "json \<Rightarrow> py_error + json list" where
  "py_iter (JArr xs) = Inr xs"
| "py_iter (JStr s) = Inr (map (\<lambda>c. JStr [c]) s)"
| "py_iter (JObj kvs) = Inr (map (\<lambda>kv. JStr (fst kv)) kvs)"
| "py_iter x = Inl TypeError"

text \<open>Members of a \<open>set\<close> must be hashable: lists and dicts are not.\<close>

fun hashable :: "json \<Rightarrow> bool" where
  "hashable (JArr xs) = False"
| "hashable (JObj kvs) = False"
| "hashable x = True"

text \<open>Runs a loop body over a list, stopping at the first exception.\<close>

fun for_each :: "('a \<Rightarrow> py_error + 'b) \<Rightarrow> 'a list \<Rightarrow> py_error + 'b list" where
  "for_each f [] = Inr []"
| "for_each f (x # xs) =
     (case f x of
        Inl e \<Rightarrow> Inl e
      | Inr y \<Rightarrow> (case for_each f xs of Inl e \<Rightarrow> Inl e | Inr ys \<Rightarrow> Inr (y # ys)))"

section \<open>Temporal policy verdict (the dict returned by check_time_violation)\<close>

text \<open>
  Both return statements of \<open>check_time_violation\<close> build a dict with the same five keys;
  it is a record here, so the defaults of \<open>time_violation_result.get(key, default)\<close> in
  the consumers are never taken.
\<close>

record time_result =
  tv_violation :: bool
  tv_ist_time :: string
  tv_clause_id :: string
  tv_rule_name :: string
  tv_description :: string

definition TIME_CLAUSE_ID :: string where
  "TIME_CLAUSE_ID = ''INTERNAL-TIME-01''"


section \<open>Output assembler: compliance and risk audit (services/json_builder.py)\<close>

text \<open>\<open>_severity_values = {"low", "medium", "high", "critical"}\<close>\<close>

definition severity_values :: "string list" where
  "severity_values = [''low'', ''medium'', ''high'', ''critical'']"

text \<open>
  The body of the normalisation loop, on one member \<open>v\<close> of the violation list:
  \<^verbatim>\<open>
      sev = str(v.get("severity", "")).lower()
      if sev not in _severity_values:
          v["severity"] = "medium"
  \<close>
  \<open>v.get\<close> exists on dicts only; on any other member it raises AttributeError.
\<close>

fun normalize_severity :: "(pyfloat \<Rightarrow> string) \<Rightarrow> json \<Rightarrow> py_error + json" where
  "normalize_severity float_repr (JObj v) =
     (let sev = lower (py_str float_repr (dict_get_default v ''severity'' (JStr [])))
      in if sev \<notin> set severity_values
         then Inr (JObj (dict_set v ''severity'' (JStr ''medium'')))
         else Inr (JObj v))"
| "normalize_severity float_repr x = Inl AttributeError"

text \<open>
  \<open>for v in policy_violations: ...\<close>. The members of a list are updated in place; a
  string or a dict yields strings, so the loop passes only when it is empty, and leaves
  it as it is.
\<close>

definition normalize_violations :: "(pyfloat \<Rightarrow> string) \<Rightarrow> json \<Rightarrow> py_error + json" where
  "normalize_violations float_repr pv =
     (case py_iter pv of
        Inl e \<Rightarrow> Inl e
      | Inr items \<Rightarrow>
          (case for_each (normalize_severity float_repr) items of
             Inl e \<Rightarrow> Inl e
           | Inr items' \<Rightarrow> Inr (case pv of JArr xs \<Rightarrow> JArr items' | _ \<Rightarrow> pv)))"

text \<open>
  One member of the set comprehension \<open>{v.get("clause_id") for v in policy_violations}\<close>:
  a missing key gives \<open>None\<close>; a list or dict cannot enter a set (TypeError).
\<close>

fun clause_id_of :: "json \<Rightarrow> py_error + json" where
  "clause_id_of (JObj v) =
     (let cid = (case dict_get v ''clause_id'' of None \<Rightarrow> JNull | Some c \<Rightarrow> c)
      in if hashable cid then Inr cid else Inl TypeError)"
| "clause_id_of x = Inl AttributeError"

definition existing_ids :: "json \<Rightarrow> py_error + json list" where
  "existing_ids pv =
     (case py_iter pv of Inl e \<Rightarrow> Inl e | Inr items \<Rightarrow> for_each clause_id_of items)"

text \<open>The violation synthesised from the temporal verdict.\<close>

definition time_violation_entry :: "time_result \<Rightarrow> json" where
  "time_violation_entry tv =
     JObj [(''clause_id'', JStr ''INTERNAL-TIME-01''),
           (''rule_name'', JStr (tv_rule_name tv)),
           (''severity'', JStr ''high''),
           (''description'', JStr (tv_description tv)),
           (''timestamp'', JStr (tv_ist_time tv)),
           (''evidence_quote'',
              JStr (''Call timestamp detected as '' @ tv_ist_time tv @ '' IST.''))]"

text \<open>\<open>policy_violations.append(x)\<close>: only a list has \<open>append\<close>.\<close>

fun py_append :: "json \<Rightarrow> json \<Rightarrow> py_error + json" where
  "py_append (JArr xs) x = Inr (JArr (xs @ [x]))"
| "py_append y x = Inl AttributeError"

text \<open>
  \<^verbatim>\<open>
  if time_violation_result.get("violation", False):
      existing_ids = {v.get("clause_id") for v in policy_violations}
      if "INTERNAL-TIME-01" not in existing_ids:
          policy_violations.append({...})
  \<close>
\<close>

definition inject_time_violation :: "time_result \<Rightarrow> json \<Rightarrow> py_error + json" where
  "inject_time_violation tv pv =
     (if tv_violation tv
      then (case existing_ids pv of
              Inl e \<Rightarrow> Inl e
            | Inr ids \<Rightarrow>
                if JStr ''INTERNAL-TIME-01'' \<notin> set ids
                then py_append pv (time_violation_entry tv)
                else Inr pv)
      else Inr pv)"

record risk_scores =
  fraud_risk :: json
  escalation_risk :: json
  urgency_level :: json
  risk_escalation_score :: json

record compliance_audit =
  is_within_policy :: json
  compliance_flags :: json
  policy_violations :: json
  detected_threats :: json
  risk_scores :: risk_scores

text \<open>
  The section of \<open>build_output_json\<close> that builds \<open>compliance_and_risk_audit\<close> from the
  reasoning result (a dict) and the temporal verdict:
  \<^verbatim>\<open>
  policy_violations = compliance_result.get("policy_violations", [])
  for v in policy_violations: ...                       # normalize_violations
  if time_violation_result.get("violation", False): ... # inject_time_violation
  has_violations = len(policy_violations) > 0
  is_within_policy = compliance_result.get("is_within_policy", not has_violations)
  compliance_flags = compliance_result.get("compliance_flags", [])
  if has_violations and not compliance_flags:
      compliance_flags = ["Policy Violation Detected"]
  compliance_and_risk_audit = {...}
  \<close>
  The other sections of the function fill the other keys of the returned document and
  do not touch this one; when the function returns, the document's
  \<open>compliance_and_risk_audit\<close> is this value. An earlier section can raise on input that
  this section accepts (a member of \<open>emotional_graph\<close> that is not a dict, for one), so
  the properties of this section are stated for an audit that is returned.
\<close>

definition compliance_and_risk_audit ::
  "(pyfloat \<Rightarrow> string) \<Rightarrow> dict \<Rightarrow> time_result \<Rightarrow> py_error + compliance_audit" where
  "compliance_and_risk_audit float_repr compliance_result time_violation_result =
     (case normalize_violations float_repr
             (dict_get_default compliance_result ''policy_violations'' (JArr [])) of
        Inl e \<Rightarrow> Inl e
      | Inr pv1 \<Rightarrow>
          (case inject_time_violation time_violation_result pv1 of
             Inl e \<Rightarrow> Inl e
           | Inr pv2 \<Rightarrow>
               (case py_len pv2 of
                  Inl e \<Rightarrow> Inl e
                | Inr n \<Rightarrow>
                    (let has_violations = (n > 0);
                         flags = dict_get_default compliance_result ''compliance_flags'' (JArr [])
                     in Inr \<lparr> is_within_policy =
                                dict_get_default compliance_result ''is_within_policy''
                                  (JBool (\<not> has_violations)),
                              compliance_flags =
                                (if has_violations \<and> \<not> truthy flags
                                 then JArr [JStr ''Policy Violation Detected'']
                                 else flags),
                              policy_violations = pv2,
                              detected_threats =
                                dict_get_default compliance_result ''detected_threats'' (JArr []),
                              risk_scores =
                                \<lparr> fraud_risk =
                                     dict_get_default compliance_result ''fraud_risk'' (JStr ''low''),
                                   escalation_risk =
                                     dict_get_default compliance_result ''escalation_risk'' (JStr ''low''),
                                   urgency_level =
                                     dict_get_default compliance_result ''urgency_level'' (JStr ''low''),
                                   risk_escalation_score =
                                     dict_get_default compliance_result ''risk_escalation_score'' (JInt 0) \<rparr> \<rparr>))))"

text \<open>Number of members of a violation list that carry the temporal clause id.\<close>

definition has_time_id :: "json \<Rightarrow> bool" where
  "has_time_id v = (case v of JObj d \<Rightarrow> dict_get d ''clause_id'' = Some (JStr TIME_CLAUSE_ID) | _ \<Rightarrow> False)"

definition time_entry_count :: "json list \<Rightarrow> nat" where
  "time_entry_count vs = length (filter has_time_id vs)"

section \<open>Temporal policy checker (services/audio_processor.py)\<close>















text \<open>The format \<open>{n:02d}\<close>, also what \<open>%H\<close> and \<open>%M\<close> of \<open>strftime\<close> print.\<close>

definition pad2 :: "nat \<Rightarrow> string" where
  "pad2 n = (if n < 10 then CHR ''0'' # show_nat n else show_nat n)"


text \<open>The en dash of the description, in UTF-8.\<close>

definition en_dash :: string where
  "en_dash = [CHR 0xE2, CHR 0x80, CHR 0x93]"






section \<open>Acoustic segmenter: windowing (services/audio_processor.py)\<close>

definition SEGMENT_DURATION_SECONDS :: nat where
  "SEGMENT_DURATION_SECONDS = 10"

definition SAMPLE_RATE :: nat where
  "SAMPLE_RATE = 16000"

text \<open>
  \<^verbatim>\<open>
  def _seconds_to_mmss(seconds):
      m = int(seconds) // 60
      s = int(seconds) % 60
      return f"{m:02d}:{s:02d}"
  \<close>
  It is called on whole seconds only.
\<close>

definition seconds_to_mmss :: "nat \<Rightarrow> string" where
  "seconds_to_mmss seconds = pad2 (seconds div 60) @ '':'' @ pad2 (seconds mod 60)"

record acoustic_segment =
  timestamp :: string
  energy_score :: pyfloat
  pitch_hz :: pyfloat
  zcr :: pyfloat
  acoustic_arousal :: string

text \<open>
  The signal processing of one window is done by numpy and librosa in floating point.
  It enters the model as a record of functions: the normalised energy, the median pitch
  and the mean zero-crossing rate of a window (given the whole clip), and \<open>round(x, n)\<close>.
\<close>

record 'a dsp =
  energy_normalized :: "'a list \<Rightarrow> 'a list \<Rightarrow> pyfloat"
  median_pitch :: "'a list \<Rightarrow> pyfloat"
  zcr_mean :: "'a list \<Rightarrow> pyfloat"
  py_round :: "pyfloat \<Rightarrow> nat \<Rightarrow> pyfloat"

text \<open>The segment returned when nothing could be analysed.\<close>

definition default_segment :: acoustic_segment where
  "default_segment =
     \<lparr> timestamp = ''00:00'', energy_score = Fin (1 / 2), pitch_hz = Fin 150,
       zcr = Fin (3602879701896397 / 2 ^ 56), acoustic_arousal = ''Medium'' \<rparr>"

text \<open>
  \<open>num_segments = max(1, math.ceil(total_samples / segment_samples))\<close>, with the ceiling of
  the quotient taken on integers.
\<close>

definition num_segments :: "nat \<Rightarrow> nat \<Rightarrow> nat" where
  "num_segments segment_samples total_samples =
     max 1 ((total_samples + segment_samples - 1) div segment_samples)"

text \<open>The slice \<open>y[start:end]\<close> of window \<open>i\<close>.\<close>

definition window :: "nat \<Rightarrow> 'a list \<Rightarrow> nat \<Rightarrow> 'a list" where
  "window segment_samples y i =
     (let start = i * segment_samples;
          end = min (start + segment_samples) (length y)
      in take (end - start) (drop start y))"

text \<open>
  The test \<open>len(segment) < sr * 0.5\<close> that skips a window, on integers: the window holds
  fewer samples than half a second of audio.
\<close>

definition too_short :: "nat \<Rightarrow> 'a list \<Rightarrow> bool" where
  "too_short sr segment = (2 * length segment < sr)"

text \<open>What the loop body appends for a window that is not skipped.\<close>

definition segment_result :: "'a dsp \<Rightarrow> 'a list \<Rightarrow> nat \<Rightarrow> 'a list \<Rightarrow> acoustic_segment" where
  "segment_result dsp y i segment =
     (let energy = energy_normalized dsp segment y;
          pitch = median_pitch dsp segment
      in \<lparr> timestamp = seconds_to_mmss (i * SEGMENT_DURATION_SECONDS),
           energy_score = py_round dsp energy 4,
           pitch_hz = py_round dsp pitch 2,
           zcr = py_round dsp (zcr_mean dsp segment) 6,
           acoustic_arousal = classify_arousal energy pitch \<rparr>)"

text \<open>
  \<^verbatim>\<open>
  segment_samples = SEGMENT_DURATION_SECONDS * sr
  total_samples = len(y)
  num_segments = max(1, math.ceil(total_samples / segment_samples))
  for i in range(num_segments):
      start = i * segment_samples
      end = min(start + segment_samples, total_samples)
      segment = y[start:end]
      if len(segment) < sr * 0.5:
          continue
      ...
      results.append({...})
  \<close>
\<close>

definition segment_loop :: "'a dsp \<Rightarrow> nat \<Rightarrow> 'a list \<Rightarrow> acoustic_segment list" where
  "segment_loop dsp sr y =
     (let segment_samples = SEGMENT_DURATION_SECONDS * sr
      in concat (map (\<lambda>i. let segment = window segment_samples y i
                           in if too_short sr segment then []
                              else [segment_result dsp y i segment])
                     [0..<num_segments segment_samples (length y)]))"

text \<open>
  \<open>analyze_audio\<close>, from the outcome of \<open>librosa.load(file_path, sr=SAMPLE_RATE, mono=True)\<close>:
  \<open>None\<close> when librosa is missing or the file cannot be decoded, else the samples at
  \<open>SAMPLE_RATE\<close>.
\<close>

definition analyze_audio :: "'a dsp \<Rightarrow> 'a list option \<Rightarrow> acoustic_segment list" where
  "analyze_audio dsp loaded =
     (case loaded of
        None \<Rightarrow> [default_segment]
      | Some y \<Rightarrow>
          (let results = segment_loop dsp SAMPLE_RATE y
           in if results \<noteq> [] then results else [default_segment]))"

text \<open>A stand-in for the signal processing, used in the examples.\<close>

definition dsp_sample :: "int dsp" where
  "dsp_sample =
     \<lparr> energy_normalized = (\<lambda>segment y. Fin (1 / 2)),
       median_pitch = (\<lambda>segment. Fin 150),
       zcr_mean = (\<lambda>segment. Fin 0),
       py_round = (\<lambda>x n. x) \<rparr>"

text \<open>Eleven seconds and ten and a quarter seconds of silence at 16 kHz.\<close>

definition clip_11s :: "int list" where
  "clip_11s = replicate 176000 0"

definition clip_10_25s :: "int list" where
  "clip_10_25s = replicate 164000 0"

section \<open>Clause retriever (services/rag_engine.py) and the merge with the corpus (main.py)\<close>

record clause =
  clause_id :: string
  rule_name :: string
  description :: string
  source :: string

text \<open>A retrieved \<open>Document\<close>: its text and its metadata, a dict from strings to strings.\<close>

record document =
  page_content :: string
  metadata :: "(string \<times> string) list"

text \<open>
  A transcript turn, with the two keys the retriever reads. It reads them with
  \<open>t.get("speaker", "")\<close> and \<open>t.get("message")\<close>, so a missing key behaves as the empty
  string.
\<close>

record transcript_turn =
  speaker :: string
  message :: string

text \<open>\<open>retriever.invoke(message)\<close>: the documents found, or the text of the exception raised.\<close>

type_synonym retriever = "string \<Rightarrow> string + document list"

text \<open>
  The two regular-expression helpers \<open>_extract_clause_id\<close> and \<open>_extract_rule_name\<close> map a
  page text to a string; they are parameters of the model.
\<close>

record extractors =
  extract_clause_id :: "string \<Rightarrow> string"
  extract_rule_name :: "string \<Rightarrow> string"

text \<open>\<open>meta.get(k) or alternative\<close>: a missing or empty value gives the alternative.\<close>

definition get_or :: "(string \<times> string) list \<Rightarrow> string \<Rightarrow> string \<Rightarrow> string" where
  "get_or meta k alternative =
     (case map_of meta k of None \<Rightarrow> alternative | Some v \<Rightarrow> if v = [] then alternative else v)"

text \<open>\<open>meta.get(k, default)\<close>.\<close>

definition meta_get :: "(string \<times> string) list \<Rightarrow> string \<Rightarrow> string \<Rightarrow> string" where
  "meta_get meta k dflt = (case map_of meta k of None \<Rightarrow> dflt | Some v \<Rightarrow> v)"

text \<open>The local state of the retrieval loop: \<open>seen_clauses\<close> and \<open>clauses\<close>.\<close>

record retrieval_state =
  seen_clauses :: "string set"
  clauses :: "clause list"

text \<open>
  \<^verbatim>\<open>
  if key not in seen_clauses:
      seen_clauses.add(key)
      clauses.append(c)
  \<close>
\<close>

definition add_if_new :: "string \<Rightarrow> clause \<Rightarrow> retrieval_state \<Rightarrow> retrieval_state" where
  "add_if_new key c st =
     (if key \<notin> seen_clauses st
      then \<lparr> seen_clauses = insert key (seen_clauses st), clauses = clauses st @ [c] \<rparr>
      else st)"

text \<open>
  A hit of the policy index:
  \<^verbatim>\<open>
  clause_id = meta.get("clause_id") or _extract_clause_id(doc.page_content)
  if clause_id not in seen_clauses: ...
      {"clause_id": clause_id,
       "rule_name": meta.get("rule_name") or _extract_rule_name(doc.page_content),
       "description": doc.page_content,
       "source": meta.get("source", "rbi_policies")}
  \<close>
\<close>

definition rbi_key :: "extractors \<Rightarrow> document \<Rightarrow> string" where
  "rbi_key ex doc = get_or (metadata doc) ''clause_id'' (extract_clause_id ex (page_content doc))"

definition rbi_clause :: "extractors \<Rightarrow> document \<Rightarrow> clause" where
  "rbi_clause ex doc =
     \<lparr> clause_id = rbi_key ex doc,
       rule_name = get_or (metadata doc) ''rule_name'' (extract_rule_name ex (page_content doc)),
       description = page_content doc,
       source = meta_get (metadata doc) ''source'' ''rbi_policies'' \<rparr>"

text \<open>
  A hit of the client index:
  \<^verbatim>\<open>
  clause_id = meta.get("clause_id", "CLIENT-XX")
  key = f"CLIENT-{meta.get('rule_name', clause_id)}"
  if key not in seen_clauses: ...
      {"clause_id": clause_id,
       "rule_name": meta.get("rule_name", "Client Rule"),
       "description": doc.page_content,
       "source": "client_config"}
  \<close>
\<close>

definition client_key :: "document \<Rightarrow> string" where
  "client_key doc =
     ''CLIENT-'' @ meta_get (metadata doc) ''rule_name'' (meta_get (metadata doc) ''clause_id'' ''CLIENT-XX'')"

definition client_clause :: "document \<Rightarrow> clause" where
  "client_clause doc =
     \<lparr> clause_id = meta_get (metadata doc) ''clause_id'' ''CLIENT-XX'',
       rule_name = meta_get (metadata doc) ''rule_name'' ''Client Rule'',
       description = page_content doc,
       source = ''client_config'' \<rparr>"

text \<open>
  The body of \<open>for message in agent_messages\<close>: the policy index first, then the client
  index when there is one. An exception of \<open>invoke\<close> is caught and leaves the state as it
  is.
\<close>

definition message_step ::
  "extractors \<Rightarrow> retriever \<Rightarrow> retriever option \<Rightarrow> retrieval_state \<Rightarrow> string \<Rightarrow> retrieval_state" where
  "message_step ex rbi_retriever client_retriever st msg =
     (let st1 = (case rbi_retriever msg of
                   Inl exc \<Rightarrow> st
                 | Inr rbi_docs \<Rightarrow> foldl (\<lambda>s doc. add_if_new (rbi_key ex doc) (rbi_clause ex doc) s) st rbi_docs)
      in case client_retriever of
           None \<Rightarrow> st1
         | Some r \<Rightarrow>
             (case r msg of
                Inl exc \<Rightarrow> st1
              | Inr client_docs \<Rightarrow>
                  foldl (\<lambda>s doc. add_if_new (client_key doc) (client_clause doc) s) st1 client_docs))"

text \<open>
  \<^verbatim>\<open>
  agent_messages = [t["message"] for t in transcript_threads
                    if t.get("speaker", "").lower() == "agent" and t.get("message")]
  if not agent_messages:
      agent_messages = [t["message"] for t in transcript_threads if t.get("message")]
  \<close>
\<close>

definition agent_messages :: "transcript_turn list \<Rightarrow> string list" where
  "agent_messages transcript_threads =
     (let agent = map message (filter (\<lambda>t. lower (speaker t) = ''agent'' \<and> message t \<noteq> [])
                                      transcript_threads)
      in if agent = []
         then map message (filter (\<lambda>t. message t \<noteq> []) transcript_threads)
         else agent)"

text \<open>
  \<open>retrieve_relevant_clauses\<close>, given the policy retriever (\<open>None\<close> while the policy store
  is not initialised) and the client retriever (\<open>None\<close> when the configuration defines no
  client rules).
\<close>

definition retrieve_relevant_clauses ::
  "extractors \<Rightarrow> retriever option \<Rightarrow> retriever option \<Rightarrow> transcript_turn list \<Rightarrow> clause list" where
  "retrieve_relevant_clauses ex rbi_vectorstore client_retriever transcript_threads =
     (case rbi_vectorstore of
        None \<Rightarrow> []
      | Some rbi_retriever \<Rightarrow>
          clauses (foldl (message_step ex rbi_retriever client_retriever)
                         \<lparr> seen_clauses = {}, clauses = [] \<rparr>
                         (agent_messages transcript_threads)))"

text \<open>
  The merge in \<open>_run_analysis_pipeline\<close>:
  \<^verbatim>\<open>
  seen_ids = {c["clause_id"] for c in all_clauses}
  for c in rag_clauses:
      if c.get("clause_id") not in seen_ids:
          all_clauses.append(c)
          seen_ids.add(c["clause_id"])
  \<close>
\<close>

definition merge_step :: "string set \<times> clause list \<Rightarrow> clause \<Rightarrow> string set \<times> clause list" where
  "merge_step st c =
     (if clause_id c \<notin> fst st then (insert (clause_id c) (fst st), snd st @ [c]) else st)"

definition merge_clauses :: "clause list \<Rightarrow> clause list \<Rightarrow> clause list" where
  "merge_clauses all_clauses rag_clauses =
     snd (foldl merge_step (set (map clause_id all_clauses), all_clauses) rag_clauses)"

text \<open>
  The hits of one request in the order the loops visit them, each with the key it is
  deduplicated on and the clause it would add.
\<close>

datatype hit = RbiHit document | ClientHit document

fun hit_key :: "extractors \<Rightarrow> hit \<Rightarrow> string" where
  "hit_key ex (RbiHit doc) = rbi_key ex doc"
| "hit_key ex (ClientHit doc) = client_key doc"

fun hit_clause :: "extractors \<Rightarrow> hit \<Rightarrow> clause" where
  "hit_clause ex (RbiHit doc) = rbi_clause ex doc"
| "hit_clause ex (ClientHit doc) = client_clause doc"

definition message_hits :: "retriever \<Rightarrow> retriever option \<Rightarrow> string \<Rightarrow> hit list" where
  "message_hits rbi_retriever client_retriever msg =
     (case rbi_retriever msg of Inl exc \<Rightarrow> [] | Inr docs \<Rightarrow> map RbiHit docs)
     @ (case client_retriever of
          None \<Rightarrow> []
        | Some r \<Rightarrow> (case r msg of Inl exc \<Rightarrow> [] | Inr docs \<Rightarrow> map ClientHit docs))"

definition retrieval_hits :: "retriever \<Rightarrow> retriever option \<Rightarrow> transcript_turn list \<Rightarrow> hit list" where
  "retrieval_hits rbi_retriever client_retriever transcript_threads =
     concat (map (message_hits rbi_retriever client_retriever) (agent_messages transcript_threads))"

text \<open>
  The specification's reading of the deduplication: of the items with the same key,
  the first one is kept, in the order of arrival.
\<close>

fun first_seen :: "('a \<Rightarrow> 'k) \<Rightarrow> 'k set \<Rightarrow> 'a list \<Rightarrow> 'a list" where
  "first_seen key seen [] = []"
| "first_seen key seen (x # xs) =
     (if key x \<in> seen then first_seen key seen xs
      else x # first_seen key (insert (key x) seen) xs)"

text \<open>Sample data: two risk triggers of a client configuration, found for one agent turn.\<close>

definition trigger_doc :: "string \<Rightarrow> document" where
  "trigger_doc trigger =
     \<lparr> page_content = ''RISK TRIGGER: '' @ trigger,
       metadata = [(''clause_id'', ''CLIENT-TRIGGER''), (''rule_name'', trigger),
                   (''source'', ''client_config'')] \<rparr>"

definition policy_doc :: "string \<Rightarrow> string \<Rightarrow> document" where
  "policy_doc cid name =
     \<lparr> page_content = ''CLAUSE '' @ cid @ '': '' @ name,
       metadata = [(''clause_id'', cid), (''rule_name'', name),
                   (''source'', ''rbi_recovery_guidelines.txt'')] \<rparr>"

definition rbi_sample :: retriever where
  "rbi_sample msg = Inr [policy_doc ''RBI-REC-01'' ''Permitted Calling Hours'']"

definition client_sample :: retriever where
  "client_sample msg = Inr [trigger_doc ''threat'', trigger_doc ''abuse'']"

definition extractors_sample :: extractors where
  "extractors_sample =
     \<lparr> extract_clause_id = (\<lambda>text. ''UNKNOWN''), extract_rule_name = (\<lambda>text. ''Policy Clause'') \<rparr>"

definition turns_sample :: "transcript_turn list" where
  "turns_sample =
     [\<lparr> speaker = ''Agent'', message = ''Pay today or we send the police.'' \<rparr>,
      \<lparr> speaker = ''customer'', message = ''Please stop calling.'' \<rparr>,
      \<lparr> speaker = ''agent'', message = ''This is your last chance.'' \<rparr>]"

definition corpus_sample :: "clause list" where
  "corpus_sample =
     [\<lparr> clause_id = ''RBI-REC-01'', rule_name = ''Permitted Calling Hours'',
        description = ''Calls only between 8 AM and 7 PM.'', source = ''rbi_recovery_guidelines.txt'' \<rparr>,
      \<lparr> clause_id = ''RBI-REC-04'', rule_name = ''No Physical Threats'',
        description = ''No threats.'', source = ''rbi_recovery_guidelines.txt'' \<rparr>]"

section \<open>Reasoning orchestrator (services/compliance_engine.py)\<close>

text \<open>
  \<^verbatim>\<open>
  def _build_fallback_compliance(error=""):
      return {
          "summary": f"Analysis could not be completed. Error: {error}" if error
                     else "Analysis could not be completed due to a processing error.",
          "category": "Unknown", ...
      }
  \<close>
\<close>

definition build_fallback_compliance :: "string \<Rightarrow> dict" where
  "build_fallback_compliance error =
     [(''summary'',
         JStr (if error \<noteq> [] then ''Analysis could not be completed. Error: '' @ error
               else ''Analysis could not be completed due to a processing error.'')),
      (''category'', JStr ''Unknown''),
      (''overall_sentiment'', JStr ''Unknown''),
      (''emotional_tone'', JStr ''Unknown''),
      (''tone_progression'', JArr [JStr ''Unknown'']),
      (''emotional_graph'',
         JArr [JObj [(''timestamp'', JStr ''00:00''), (''tone'', JStr ''Neutral''),
                     (''score'', JFloat (Fin (1 / 2))), (''acoustic_arousal'', JStr ''Low'')]]),
      (''emotion_timeline'',
         JArr [JObj [(''time'', JStr ''start''), (''emotion'', JStr ''unknown'')],
               JObj [(''time'', JStr ''middle''), (''emotion'', JStr ''unknown'')],
               JObj [(''time'', JStr ''end''), (''emotion'', JStr ''unknown'')]]),
      (''is_within_policy'', JBool True),
      (''compliance_flags'', JArr []),
      (''policy_violations'', JArr []),
      (''detected_threats'', JArr []),
      (''fraud_risk'', JStr ''low''),
      (''escalation_risk'', JStr ''low''),
      (''urgency_level'', JStr ''low''),
      (''risk_escalation_score'', JInt 0),
      (''agent_politeness'', JStr ''fair''),
      (''agent_empathy'', JStr ''medium''),
      (''agent_professionalism'', JStr ''fair''),
      (''agent_quality_score'', JInt 50),
      (''call_outcome_prediction'', JStr ''Resolved''),
      (''repeat_complaint_detected'', JBool False),
      (''final_status'', JStr ''Pending Review''),
      (''recommended_action'', JStr ''Manual review required.'')]"

text \<open>
  One call of the external reasoning service and the parse of its answer,
  \<open>_extract_json(model.generate_content(...).text)\<close>: the call (or reading the text) raises
  some exception with the given message, or \<open>json.loads\<close> raises JSONDecodeError with the
  given message, or a value is parsed.
\<close>

datatype attempt = CallError string | JsonError string | Parsed json

record generation_config =
  response_mime_type :: string
  temperature :: pyfloat

text \<open>What one call of the service is given; the prompt is kept abstract.\<close>

record 'p model_call =
  model_name :: string
  call_prompt :: 'p
  call_config :: generation_config

text \<open>\<open>GenerationConfig(response_mime_type="application/json", temperature=0.05)\<close>\<close>

definition json_config :: generation_config where
  "json_config =
     \<lparr> response_mime_type = ''application/json'',
       temperature = Fin (3602879701896397 / 2 ^ 56) \<rparr>"

definition primary_call :: "'p \<Rightarrow> 'p model_call" where
  "primary_call p =
     \<lparr> model_name = ''models/gemini-2.5-flash'', call_prompt = p, call_config = json_config \<rparr>"

definition secondary_call :: "'p \<Rightarrow> 'p model_call" where
  "secondary_call p =
     \<lparr> model_name = ''models/gemini-2.0-flash'', call_prompt = p, call_config = json_config \<rparr>"

text \<open>How a \<open>try\<close> block of \<open>run_compliance_analysis\<close> ends when it does not return.\<close>

datatype failure = JSONDecodeError string | OtherException string

definition quoted :: "string \<Rightarrow> string" where
  "quoted s = [CHR 0x27] @ s @ [CHR 0x27]"

text \<open>
  The rest of a \<open>try\<close> block after the service has answered:
  \<^verbatim>\<open>
  result = _extract_json(response.text)
  print(f"... Violations: {len(result.get('policy_violations', []))} | "
        f"Score: {result.get('risk_escalation_score', 'N/A')}")
  return result
  \<close>
  The progress line calls \<open>result.get\<close> and \<open>len\<close>: a parsed value that is not a dict, or
  whose \<open>policy_violations\<close> has no length, raises there.
\<close>

fun try_block :: "attempt \<Rightarrow> failure + dict" where
  "try_block (CallError msg) = Inl (OtherException msg)"
| "try_block (JsonError msg) = Inl (JSONDecodeError msg)"
| "try_block (Parsed (JObj result)) =
     (let pv = dict_get_default result ''policy_violations'' (JArr [])
      in case py_len pv of
           Inl e \<Rightarrow> Inl (OtherException (''object of type '' @ quoted (type_name pv) @ '' has no len()''))
         | Inr n \<Rightarrow> Inr result)"
| "try_block (Parsed x) =
     Inl (OtherException (quoted (type_name x) @ '' object has no attribute '' @ quoted ''get''))"

text \<open>
  \<open>run_compliance_analysis\<close> from the point where the prompt has been rendered. The
  service is a function of the call it receives; the second component of the result
  lists the calls made, in order.
  \<^verbatim>\<open>
  try:
      response = model.generate_content(prompt, generation_config=...)
      ...
      return result
  except json.JSONDecodeError as exc:
      return _build_fallback_compliance(f"JSON parse error: {exc}")
  except Exception as exc:
      try:
          fallback_model = genai.GenerativeModel(model_name="models/gemini-2.0-flash")
          response = fallback_model.generate_content(prompt, generation_config=...)
          ...
          return result
      except json.JSONDecodeError as exc2:
          return _build_fallback_compliance(f"JSON parse error: {exc2}")
      except Exception as exc2:
          return _build_fallback_compliance(str(exc2))
  \<close>
\<close>

definition run_compliance_analysis ::
  "('p model_call \<Rightarrow> attempt) \<Rightarrow> 'p \<Rightarrow> dict \<times> 'p model_call list" where
  "run_compliance_analysis service p =
     (case try_block (service (primary_call p)) of
        Inr result \<Rightarrow> (result, [primary_call p])
      | Inl (JSONDecodeError exc) \<Rightarrow>
          (build_fallback_compliance (''JSON parse error: '' @ exc), [primary_call p])
      | Inl (OtherException exc) \<Rightarrow>
          (case try_block (service (secondary_call p)) of
             Inr result \<Rightarrow> (result, [primary_call p, secondary_call p])
           | Inl (JSONDecodeError exc2) \<Rightarrow>
               (build_fallback_compliance (''JSON parse error: '' @ exc2),
                [primary_call p, secondary_call p])
           | Inl (OtherException exc2) \<Rightarrow>
               (build_fallback_compliance exc2, [primary_call p, secondary_call p])))"

text \<open>Sample services: one that always answers with text that is not JSON, one that is down.\<close>

definition service_malformed :: "string model_call \<Rightarrow> attempt" where
  "service_malformed c = JsonError ''Expecting value: line 1 column 1 (char 0)''"

definition service_down :: "string model_call \<Rightarrow> attempt" where
  "service_down c = CallError ''503 Service Unavailable''"

section \<open>Notions used to state the properties of the assembler, and sample inputs\<close>

text \<open>
  The severity of a violation is accepted as it stands when it is a string whose
  lowercase form is one of the four values.
\<close>

definition severity_accepted :: "dict \<Rightarrow> bool" where
  "severity_accepted d =
     (case dict_get d ''severity'' of Some (JStr s) \<Rightarrow> lower s \<in> set severity_values | _ \<Rightarrow> False)"

text \<open>
  A stand-in for Python's float printing in the examples: right on NaN and the
  infinities, the integer part followed by \<open>.0\<close> on the rest.
\<close>

definition float_repr_sample :: "pyfloat \<Rightarrow> string" where
  "float_repr_sample f =
     (case f of NaN \<Rightarrow> ''nan'' | PosInf \<Rightarrow> ''inf'' | NegInf \<Rightarrow> ''-inf''
      | Fin r \<Rightarrow> show_int \<lfloor>r\<rfloor> @ ''.0'')"

text \<open>Verdicts of the temporal checker for a call at 20:05 and for one at 15:30 local time.\<close>

definition tv_evening :: time_result where
  "tv_evening =
     \<lparr> tv_violation = True,
       tv_ist_time = ''20:05'',
       tv_clause_id = ''INTERNAL-TIME-01'',
       tv_rule_name = ''Operating Hours Compliance'',
       tv_description =
         ''Call placed outside approved hours (8 AM '' @ en_dash @ '' 7 PM IST). ''
         @ ''Call was received at 20:05 IST, which is in the evening (after 7 PM).'' \<rparr>"

definition tv_daytime :: time_result where
  "tv_daytime =
     \<lparr> tv_violation = False,
       tv_ist_time = ''15:30'',
       tv_clause_id = ''INTERNAL-TIME-01'',
       tv_rule_name = ''Operating Hours Compliance'',
       tv_description = ''Call placed within approved hours. IST time: 15:30.'' \<rparr>"

text \<open>A temporal violation as the reasoning step reports it.\<close>

definition reported_time_violation :: json where
  "reported_time_violation =
     JObj [(''clause_id'', JStr ''INTERNAL-TIME-01''),
           (''rule_name'', JStr ''Operating Hours Compliance''),
           (''severity'', JStr ''high''),
           (''description'', JStr ''Call placed after 7 PM.''),
           (''timestamp'', JStr ''00:00''),
           (''evidence_quote'', JStr ''N/A'')]"

text \<open>A threat violation, with the severity as given.\<close>

definition threat_violation :: "json \<Rightarrow> json" where
  "threat_violation sev =
     JObj [(''clause_id'', JStr ''RBI-REC-04''),
           (''rule_name'', JStr ''No Physical Threats''),
           (''severity'', sev),
           (''description'', JStr ''The agent threatened a visit.''),
           (''timestamp'', JStr ''00:42''),
           (''evidence_quote'', JStr ''We will come to your house.'')]"

text \<open>Reasoning results: the temporal violation reported twice; a severity spelled \<open>High\<close>;
  a result that claims compliance next to a violation; a result with one threat.\<close>

definition cr_time_twice :: dict where
  "cr_time_twice =
     [(''policy_violations'', JArr [reported_time_violation, reported_time_violation])]"

definition cr_capital_severity :: dict where
  "cr_capital_severity = [(''policy_violations'', JArr [threat_violation (JStr ''High'')])]"

definition cr_inconsistent :: dict where
  "cr_inconsistent =
     [(''is_within_policy'', JBool True),
      (''policy_violations'', JArr [threat_violation (JStr ''critical'')])]"

definition cr_threat :: dict where
  "cr_threat = [(''policy_violations'', JArr [threat_violation (JInt 3)])]"

definition default_risk_scores :: risk_scores where
  "default_risk_scores =
     \<lparr> fraud_risk = JStr ''low'', escalation_risk = JStr ''low'',
       urgency_level = JStr ''low'', risk_escalation_score = JInt 0 \<rparr>"


section \<open>Notions used to state the properties of the orchestrator\<close>

text \<open>The keys of the fallback document, in order.\<close>

definition FALLBACK_KEYS :: "string list" where
  "FALLBACK_KEYS =
     [''summary'', ''category'', ''overall_sentiment'', ''emotional_tone'', ''tone_progression'',
      ''emotional_graph'', ''emotion_timeline'', ''is_within_policy'', ''compliance_flags'',
      ''policy_violations'', ''detected_threats'', ''fraud_risk'', ''escalation_risk'',
      ''urgency_level'', ''risk_escalation_score'', ''agent_politeness'', ''agent_empathy'',
      ''agent_professionalism'', ''agent_quality_score'', ''call_outcome_prediction'',
      ''repeat_complaint_detected'', ''final_status'', ''recommended_action'']"

section \<open>Notions used to state the properties of the retriever\<close>

text \<open>One visit of a hit by the retrieval loops.\<close>

definition hit_step :: "extractors \<Rightarrow> retrieval_state \<Rightarrow> hit \<Rightarrow> retrieval_state" where
  "hit_step ex st h = add_if_new (hit_key ex h) (hit_clause ex h) st"

text \<open>A hit that comes from the policy index.\<close>

definition is_rbi_hit :: "hit \<Rightarrow> bool" where
  "is_rbi_hit h = (case h of RbiHit doc \<Rightarrow> True | ClientHit doc \<Rightarrow> False)"


section \<open>Notions used to state the properties of the temporal checker\<close>






section \<open>Properties of the arousal and tone classifiers\<close>

lemma is_substring_sublist: "is_substring s t \<longleftrightarrow> sublist s t"
  by (induction t) (auto simp: sublist_Cons_right)

lemma medium_below_high:
  "float_ge e HIGH_ENERGY_THRESHOLD \<Longrightarrow> float_ge e MEDIUM_ENERGY_THRESHOLD"
  by (cases e) (simp_all add: HIGH_ENERGY_THRESHOLD_def MEDIUM_ENERGY_THRESHOLD_def)

text \<open>
  Claim C7. Arousal classification is a total function of energy and pitch (NaN and the
  infinities included) with the fixed order of tests: High exactly when energy is at
  least 0.65 and pitch at least 210; otherwise Medium exactly when energy is at least
  0.35; otherwise Low. At the boundary values, (0.65, 210) is High, (0.65, 209.9) is
  Medium, and energy 0.34 is Low for every pitch.
\<close>

theorem classify_arousal_rule:
  "(classify_arousal energy pitch = ''High'' \<longleftrightarrow>
      float_ge energy HIGH_ENERGY_THRESHOLD \<and> float_ge pitch HIGH_PITCH_THRESHOLD)
   \<and> (classify_arousal energy pitch = ''Medium'' \<longleftrightarrow>
        \<not> (float_ge energy HIGH_ENERGY_THRESHOLD \<and> float_ge pitch HIGH_PITCH_THRESHOLD)
        \<and> float_ge energy MEDIUM_ENERGY_THRESHOLD)
   \<and> (classify_arousal energy pitch = ''Low'' \<longleftrightarrow> \<not> float_ge energy MEDIUM_ENERGY_THRESHOLD)
   \<and> classify_arousal HIGH_ENERGY_THRESHOLD HIGH_PITCH_THRESHOLD = ''High''
   \<and> classify_arousal HIGH_ENERGY_THRESHOLD lit_209_9 = ''Medium''
   \<and> classify_arousal lit_0_34 pitch = ''Low''"
proof -
  have low: "\<not> float_ge lit_0_34 MEDIUM_ENERGY_THRESHOLD"
    by (simp add: lit_0_34_def MEDIUM_ENERGY_THRESHOLD_def)
  have hi: "float_ge HIGH_ENERGY_THRESHOLD HIGH_ENERGY_THRESHOLD"
    by (simp add: HIGH_ENERGY_THRESHOLD_def)
  have pi: "float_ge HIGH_PITCH_THRESHOLD HIGH_PITCH_THRESHOLD"
    by (simp add: HIGH_PITCH_THRESHOLD_def)
  have np: "\<not> float_ge lit_209_9 HIGH_PITCH_THRESHOLD"
    by (simp add: lit_209_9_def HIGH_PITCH_THRESHOLD_def)
  show ?thesis
    using low hi pi np medium_below_high [of energy] medium_below_high [of HIGH_ENERGY_THRESHOLD]
      medium_below_high [of lit_0_34]
    by (auto simp: classify_arousal_def)
qed

theorem classify_arousal_rule_witness:
  "classify_arousal (Fin (7 / 10)) (Fin 250) = ''High''
   \<and> classify_arousal (Fin (7 / 10)) NaN = ''Medium''
   \<and> classify_arousal NaN PosInf = ''Low''"
proof -
  have e: "float_ge (Fin (7 / 10)) HIGH_ENERGY_THRESHOLD"
    by (simp add: HIGH_ENERGY_THRESHOLD_def)
  have m: "float_ge (Fin (7 / 10)) MEDIUM_ENERGY_THRESHOLD"
    by (simp add: MEDIUM_ENERGY_THRESHOLD_def)
  have p: "float_ge (Fin 250) HIGH_PITCH_THRESHOLD"
    by (simp add: HIGH_PITCH_THRESHOLD_def)
  show ?thesis
    using e m p classify_arousal_rule [of "Fin (7 / 10)" "Fin 250"]
      classify_arousal_rule [of "Fin (7 / 10)" NaN] classify_arousal_rule [of NaN PosInf]
    by simp
qed

lemma occurrences_pos: "0 < occurrences s t \<longleftrightarrow> is_substring s t"
  by (induction t) auto

lemma lower_nth:
  "length (lower s) = length s \<and>
   (\<forall>i<length s. (of_char (lower s ! i) :: nat) =
      (if 65 \<le> (of_char (s ! i) :: nat) \<and> (of_char (s ! i) :: nat) \<le> 90
       then of_char (s ! i) + 32 else of_char (s ! i)))"
  by (simp add: lower_def lower_char_def Let_def)

text \<open>
  Claim C10, as amended. The tone of a line is decided on the lowercased text by the four
  lexicon scores, where the score of a lexicon is the number of its entries that occur
  in the text as substrings (an entry counts once, however often it occurs), in the
  fixed order angry (angry score at least 1 and at least the positive score), then
  fearful, then urgent, then positive, then neutral. A line whose positive score exceeds
  its angry score is never classified angry. On ASCII text lowercasing moves A to Z to
  a to z and keeps every other character.
\<close>

theorem classify_tone_priority:
  assumes "a = stem_score (str_lower msg) ANGRY_STEMS"
    and "p = stem_score (str_lower msg) POSITIVE_STEMS"
    and "f = stem_score (str_lower msg) FEARFUL_STEMS"
    and "u = stem_score (str_lower msg) URGENT_STEMS"
  shows "(classify_tone str_lower msg = ''angry/frustrated'' \<longleftrightarrow> a \<ge> 1 \<and> a \<ge> p)
    \<and> (classify_tone str_lower msg = ''fearful/anxious'' \<longleftrightarrow> \<not> (a \<ge> 1 \<and> a \<ge> p) \<and> f \<ge> 1)
    \<and> (classify_tone str_lower msg = ''urgent'' \<longleftrightarrow> \<not> (a \<ge> 1 \<and> a \<ge> p) \<and> f = 0 \<and> u \<ge> 1)
    \<and> (classify_tone str_lower msg = ''positive'' \<longleftrightarrow>
          \<not> (a \<ge> 1 \<and> a \<ge> p) \<and> f = 0 \<and> u = 0 \<and> p \<ge> 1)
    \<and> (classify_tone str_lower msg = ''neutral'' \<longleftrightarrow> a = 0 \<and> f = 0 \<and> u = 0 \<and> p = 0)
    \<and> (p > a \<longrightarrow> classify_tone str_lower msg \<noteq> ''angry/frustrated'')
    \<and> (\<forall>txt stems. stem_score txt stems = length (filter (\<lambda>s. sublist s txt) stems))
    \<and> (\<forall>txt stems. stem_score txt stems = length (filter (\<lambda>s. 0 < occurrences s txt) stems))
    \<and> (\<forall>txt stems. stem_score txt stems \<le> length stems)
    \<and> ((\<forall>s. ascii_text s \<longrightarrow> str_lower s = lower s) \<and> ascii_text msg \<longrightarrow>
          length (str_lower msg) = length msg
          \<and> (\<forall>i<length msg. (of_char (str_lower msg ! i) :: nat) =
                (if 65 \<le> (of_char (msg ! i) :: nat) \<and> (of_char (msg ! i) :: nat) \<le> 90
                 then of_char (msg ! i) + 32 else of_char (msg ! i))))"
proof -
  have sub: "\<forall>txt stems. stem_score txt stems = length (filter (\<lambda>s. sublist s txt) stems)"
    by (simp add: stem_score_def is_substring_sublist)
  have occ: "\<forall>txt stems. stem_score txt stems = length (filter (\<lambda>s. 0 < occurrences s txt) stems)"
    by (simp add: stem_score_def occurrences_pos)
  have bound: "\<forall>txt stems. stem_score txt stems \<le> length stems"
    by (simp add: stem_score_def)
  have low: "(\<forall>s. ascii_text s \<longrightarrow> str_lower s = lower s) \<and> ascii_text msg \<longrightarrow>
          length (str_lower msg) = length msg
          \<and> (\<forall>i<length msg. (of_char (str_lower msg ! i) :: nat) =
                (if 65 \<le> (of_char (msg ! i) :: nat) \<and> (of_char (msg ! i) :: nat) \<le> 90
                 then of_char (msg ! i) + 32 else of_char (msg ! i)))"
    using lower_nth [of msg] by auto
  have tone: "classify_tone str_lower msg =
      (if a \<ge> 1 \<and> a \<ge> p then ''angry/frustrated''
       else if f \<ge> 1 then ''fearful/anxious''
       else if u \<ge> 1 then ''urgent''
       else if p \<ge> 1 then ''positive''
       else ''neutral'')"
    unfolding assms by (simp add: classify_tone_def Let_def)
  have rest: "(classify_tone str_lower msg = ''angry/frustrated'' \<longleftrightarrow> a \<ge> 1 \<and> a \<ge> p)
    \<and> (classify_tone str_lower msg = ''fearful/anxious'' \<longleftrightarrow> \<not> (a \<ge> 1 \<and> a \<ge> p) \<and> f \<ge> 1)
    \<and> (classify_tone str_lower msg = ''urgent'' \<longleftrightarrow> \<not> (a \<ge> 1 \<and> a \<ge> p) \<and> f = 0 \<and> u \<ge> 1)
    \<and> (classify_tone str_lower msg = ''positive'' \<longleftrightarrow>
          \<not> (a \<ge> 1 \<and> a \<ge> p) \<and> f = 0 \<and> u = 0 \<and> p \<ge> 1)
    \<and> (classify_tone str_lower msg = ''neutral'' \<longleftrightarrow> a = 0 \<and> f = 0 \<and> u = 0 \<and> p = 0)
    \<and> (p > a \<longrightarrow> classify_tone str_lower msg \<noteq> ''angry/frustrated'')"
    unfolding tone by auto
  show ?thesis
    by (intro conjI) (rule rest [THEN conjunct1] rest [THEN conjunct2, THEN conjunct1]
       rest [THEN conjunct2, THEN conjunct2, THEN conjunct1]
       rest [THEN conjunct2, THEN conjunct2, THEN conjunct2, THEN conjunct1]
       rest [THEN conjunct2, THEN conjunct2, THEN conjunct2, THEN conjunct2, THEN conjunct1]
       rest [THEN conjunct2, THEN conjunct2, THEN conjunct2, THEN conjunct2, THEN conjunct2]
       sub occ bound low)+
qed

theorem classify_tone_priority_witness:
  "ascii_text ''THANK you, this is GOOD but WRONG [@`{''
   \<and> lower ''THANK you, this is GOOD but WRONG [@`{'' = ''thank you, this is good but wrong [@`{''
   \<and> stem_score (lower ''THANK you, this is GOOD but WRONG [@`{'') POSITIVE_STEMS = 2
   \<and> stem_score (lower ''THANK you, this is GOOD but WRONG [@`{'') ANGRY_STEMS = 1
   \<and> classify_tone lower ''THANK you, this is GOOD but WRONG [@`{'' \<noteq> ''angry/frustrated''
   \<and> classify_tone lower ''THANK you, this is GOOD but WRONG [@`{'' = ''positive''
   \<and> classify_tone id ''THANK you, this is GOOD but WRONG [@`{'' = ''neutral''"
proof -
  have t: "ascii_text ''THANK you, this is GOOD but WRONG [@`{''" by code_simp
  have l: "lower ''THANK you, this is GOOD but WRONG [@`{'' = ''thank you, this is good but wrong [@`{''"
    by code_simp
  have p: "stem_score (lower ''THANK you, this is GOOD but WRONG [@`{'') POSITIVE_STEMS = 2"
    by code_simp
  have a: "stem_score (lower ''THANK you, this is GOOD but WRONG [@`{'') ANGRY_STEMS = 1"
    by code_simp
  have f: "stem_score (lower ''THANK you, this is GOOD but WRONG [@`{'') FEARFUL_STEMS = 0"
    by code_simp
  have u: "stem_score (lower ''THANK you, this is GOOD but WRONG [@`{'') URGENT_STEMS = 0"
    by code_simp
  have n: "classify_tone id ''THANK you, this is GOOD but WRONG [@`{'' = ''neutral''"
    by code_simp
  note r = classify_tone_priority [where str_lower = lower
      and msg = "''THANK you, this is GOOD but WRONG [@`{''",
      OF a [symmetric] p [symmetric] f [symmetric] u [symmetric]]
  have pos: "classify_tone lower ''THANK you, this is GOOD but WRONG [@`{'' = ''positive''"
    using r [THEN conjunct2, THEN conjunct2, THEN conjunct2, THEN conjunct1] by simp
  have na: "classify_tone lower ''THANK you, this is GOOD but WRONG [@`{'' \<noteq> ''angry/frustrated''"
    using r [THEN conjunct2, THEN conjunct2, THEN conjunct2, THEN conjunct2, THEN conjunct2,
             THEN conjunct1] by simp
  show ?thesis by (intro conjI) (rule t l p a na pos n)+
qed

text \<open>
  Claim C10 as stated fails: counted by substring occurrences, the line below has two
  positive occurrences and one angry occurrence, and it is classified angry, because the
  repeated entry counts once.
\<close>

theorem repeated_stem_counts_once:
  "occurrence_score (lower ''good good wrong'') POSITIVE_STEMS = 2
   \<and> occurrence_score (lower ''good good wrong'') ANGRY_STEMS = 1
   \<and> stem_score (lower ''good good wrong'') POSITIVE_STEMS = 1
   \<and> stem_score (lower ''good good wrong'') ANGRY_STEMS = 1
   \<and> classify_tone lower ''good good wrong'' = ''angry/frustrated''"
  by code_simp


section \<open>Properties of the output assembler\<close>

lemma digit_char_code: "d < 10 \<Longrightarrow> of_char (digit_char d) = 48 + d"
  by (simp add: digit_char_def)

lemma show_nat_hd: "show_nat n \<noteq> [] \<and> (of_char (hd (show_nat n)) :: nat) < 58 \<and> 48 \<le> (of_char (hd (show_nat n)) :: nat)"
proof (induction n rule: show_nat.induct)
  case (1 n)
  show ?case
  proof (cases "n < 10")
    case True
    then show ?thesis by (simp add: show_nat.simps [of n] digit_char_code)
  next
    case False
    with 1 show ?thesis by (simp add: show_nat.simps [of n])
  qed
qed

lemma show_int_hd: "show_int i \<noteq> [] \<and> (of_char (hd (show_int i)) :: nat) < 65"
  using show_nat_hd [of "nat i"] by (auto simp: show_int_def)

lemma lower_char_low: "(of_char c :: nat) < 65 \<Longrightarrow> lower_char c = c"
  by (simp add: lower_char_def Let_def)

lemma severity_hd: "s \<in> set severity_values \<Longrightarrow> s \<noteq> [] \<and> 97 \<le> (of_char (hd s) :: nat) \<and> (of_char (hd s) :: nat) < 123"
  by (auto simp: severity_values_def)

lemma lower_hd: "s \<noteq> [] \<Longrightarrow> hd (lower s) = lower_char (hd s)"
  by (cases s) (simp_all add: lower_def)

lemma not_severity_by_hd:
  assumes "s \<noteq> []" and "(of_char (hd s) :: nat) < 65 \<or> of_char (hd s) = (91::nat) \<or> of_char (hd s) = (123::nat)"
  shows "lower s \<notin> set severity_values"
proof
  assume a: "lower s \<in> set severity_values"
  have "lower_char (hd s) = hd s" using assms(2) by (auto simp: lower_char_def Let_def)
  then have "hd (lower s) = hd s" using assms(1) by (simp add: lower_hd)
  with severity_hd [OF a] assms(2) show False by auto
qed

lemma py_str_severity:
  assumes "\<forall>f. lower (fr f) \<notin> set severity_values"
  shows "lower (py_str fr x) \<in> set severity_values \<longleftrightarrow> (\<exists>s. x = JStr s \<and> lower s \<in> set severity_values)"
proof (cases x)
  case JNull
  have "lower ''None'' \<notin> set severity_values" by code_simp
  with JNull show ?thesis by (simp add: py_str_def)
next
  case (JBool b)
  have "lower ''True'' \<notin> set severity_values" "lower ''False'' \<notin> set severity_values" by code_simp+
  with JBool show ?thesis by (simp add: py_str_def)
next
  case (JInt i)
  from show_int_hd [of i] have "lower (show_int i) \<notin> set severity_values"
    by (intro not_severity_by_hd) auto
  with JInt show ?thesis by (simp add: py_str_def)
next
  case (JFloat f)
  with assms show ?thesis by (simp add: py_str_def)
next
  case (JStr s)
  then show ?thesis by (simp add: py_str_def)
next
  case (JArr xs)
  have "lower (''['' @ join_comma (map (py_repr fr) xs) @ '']'') \<notin> set severity_values"
    by (intro not_severity_by_hd) auto
  with JArr show ?thesis by (simp add: py_str_def)
next
  case (JObj kvs)
  have "lower (''{'' @ join_comma (map (\<lambda>kv. repr_str (fst kv) @ '': '' @ py_repr fr (snd kv)) kvs) @ ''}'') \<notin> set severity_values"
    by (intro not_severity_by_hd) auto
  with JObj show ?thesis by (simp add: py_str_def)
qed

lemma empty_not_severity: "lower [] \<notin> set severity_values"
  by (simp add: lower_def severity_values_def)

lemma normalize_severity_dict:
  assumes "\<forall>f. lower (fr f) \<notin> set severity_values"
  shows "normalize_severity fr (JObj d) =
           Inr (JObj (if severity_accepted d then d else dict_set d ''severity'' (JStr ''medium'')))"
proof (cases "dict_get d ''severity''")
  case None
  then show ?thesis
    using empty_not_severity
    by (simp add: severity_accepted_def dict_get_def dict_get_default_def py_str_def)
next
  case (Some v)
  then have "dict_get_default d ''severity'' (JStr []) = v"
    by (simp add: dict_get_def dict_get_default_def)
  moreover have "severity_accepted d \<longleftrightarrow> (\<exists>s. v = JStr s \<and> lower s \<in> set severity_values)"
    using Some by (auto simp: severity_accepted_def split: json.splits)
  ultimately show ?thesis using py_str_severity [OF assms, of v]
    by (cases "severity_accepted d") (simp_all add: Let_def)
qed

lemma normalize_severity_Inr:
  "normalize_severity fr x = Inr y \<Longrightarrow> \<exists>d d'. x = JObj d \<and> y = JObj d' \<and> dict_get d' ''clause_id'' = dict_get d ''clause_id''"
  by (cases x) (auto simp: Let_def dict_set_def dict_get_def update_conv' split: if_splits)

lemma for_each_Inr_D: "for_each f xs = Inr ys \<Longrightarrow> list_all2 (\<lambda>x y. f x = Inr y) xs ys"
  by (induction xs arbitrary: ys) (auto split: sum.splits)

lemma for_each_Inr_I: "list_all2 (\<lambda>x y. f x = Inr y) xs ys \<Longrightarrow> for_each f xs = Inr ys"
  by (induction rule: list_all2_induct) auto

lemma audit_Inr:
  assumes "compliance_and_risk_audit fr cr tv = Inr a"
  shows "\<exists>pv1 n. normalize_violations fr (dict_get_default cr ''policy_violations'' (JArr [])) = Inr pv1
           \<and> inject_time_violation tv pv1 = Inr (policy_violations a)
           \<and> py_len (policy_violations a) = Inr n
           \<and> is_within_policy a = dict_get_default cr ''is_within_policy'' (JBool (\<not> n > 0))"
  using assms
  by (auto simp: compliance_and_risk_audit_def Let_def split: sum.splits)

lemma normalize_violations_JArr:
  "normalize_violations fr (JArr xs) = Inr pv1 \<longleftrightarrow>
     (\<exists>ys. pv1 = JArr ys \<and> list_all2 (\<lambda>x y. normalize_severity fr x = Inr y) xs ys)"
  by (auto simp: normalize_violations_def for_each_Inr_I split: sum.splits dest: for_each_Inr_D)

lemma normalize_violations_other:
  assumes "normalize_violations fr pv = Inr pv1" and "\<forall>xs. pv \<noteq> JArr xs"
  shows "pv1 = pv"
  using assms by (cases pv) (auto simp: normalize_violations_def split: sum.splits)

lemma inject_JArr:
  assumes "inject_time_violation tv pv1 = Inr (JArr zs)"
  shows "\<exists>ys. pv1 = JArr ys \<and> (zs = ys \<or> zs = ys @ [time_violation_entry tv])"
  using assms
  by (cases pv1) (auto simp: inject_time_violation_def split: if_splits sum.splits)

lemma has_time_id_entry: "has_time_id (time_violation_entry tv)"
  by (simp add: has_time_id_def time_violation_entry_def dict_get_def TIME_CLAUSE_ID_def)

lemma normalize_keeps_time_id:
  "normalize_severity fr x = Inr y \<Longrightarrow> has_time_id y = has_time_id x"
  by (drule normalize_severity_Inr) (auto simp: has_time_id_def)

lemma normalize_keeps_count:
  "list_all2 (\<lambda>x y. normalize_severity fr x = Inr y) xs ys \<Longrightarrow> time_entry_count ys = time_entry_count xs"
  by (induction rule: list_all2_induct) (auto simp: time_entry_count_def normalize_keeps_time_id)

lemma count_append_entry:
  "time_entry_count (ys @ [time_violation_entry tv]) = Suc (time_entry_count ys)"
  by (simp add: time_entry_count_def has_time_id_entry)

lemma lower_medium: "lower ''medium'' \<in> set severity_values"
  by code_simp

lemma lower_high: "lower ''high'' \<in> set severity_values"
  by code_simp

lemma normalized_severity_canonical:
  "\<exists>s. dict_get (if severity_accepted d then d else dict_set d ''severity'' (JStr ''medium'')) ''severity''
          = Some (JStr s) \<and> lower s \<in> set severity_values"
proof (cases "severity_accepted d")
  case True
  then show ?thesis by (auto simp: severity_accepted_def split: option.splits json.splits)
next
  case False
  then show ?thesis using lower_medium by (simp add: dict_get_def dict_set_def update_conv')
qed

lemma entry_severity_canonical:
  "\<exists>d s. time_violation_entry tv = JObj d \<and> dict_get d ''severity'' = Some (JStr s)
         \<and> lower s \<in> set severity_values"
  using lower_high by (simp add: time_violation_entry_def dict_get_def)

lemma clause_id_of_Inr:
  "clause_id_of y = Inr c \<Longrightarrow> (c = JStr ''INTERNAL-TIME-01'' \<longleftrightarrow> has_time_id y)"
  by (cases y)
     (auto simp: has_time_id_def TIME_CLAUSE_ID_def Let_def split: option.splits if_splits)

lemma existing_ids_count:
  "for_each clause_id_of ys = Inr ids \<Longrightarrow>
     (JStr ''INTERNAL-TIME-01'' \<in> set ids \<longleftrightarrow> 0 < time_entry_count ys)"
proof (induction ys arbitrary: ids)
  case Nil
  then show ?case by (simp add: time_entry_count_def)
next
  case (Cons y ys)
  from Cons.prems obtain c cs where c: "clause_id_of y = Inr c"
    and cs: "for_each clause_id_of ys = Inr cs" and ids: "ids = c # cs"
    by (auto split: sum.splits)
  from Cons.IH [OF cs] clause_id_of_Inr [OF c] ids show ?case
    by (auto simp: time_entry_count_def)
qed

lemma inject_violation:
  assumes "tv_violation tv" and "inject_time_violation tv pv1 = Inr pv2"
  shows "\<exists>ns. pv1 = JArr ns
           \<and> pv2 = JArr (ns @ (if time_entry_count ns = 0 then [time_violation_entry tv] else []))"
proof (cases pv1)
  case (JArr ns)
  from assms JArr obtain ids where ids: "for_each clause_id_of ns = Inr ids"
    by (auto simp: inject_time_violation_def existing_ids_def split: sum.splits)
  from existing_ids_count [OF ids] assms JArr ids show ?thesis
    by (auto simp: inject_time_violation_def existing_ids_def split: if_splits)
next
  case (JStr s)
  with assms show ?thesis
    by (cases s) (auto simp: inject_time_violation_def existing_ids_def split: sum.splits if_splits)
next
  case (JObj kvs)
  with assms show ?thesis
    by (cases kvs) (auto simp: inject_time_violation_def existing_ids_def split: sum.splits if_splits)
qed (use assms in \<open>auto simp: inject_time_violation_def existing_ids_def\<close>)

text \<open>
  Claim C1, as amended. Whenever the assembler returns an audit for a verdict of the
  temporal checker with \<open>violation\<close> true, the reasoning result's \<open>policy_violations\<close> is
  a list and the audit's violation list is that list, normalised, followed by the
  synthesised temporal violation exactly when no member of the input carries the id
  INTERNAL-TIME-01. The number of members with that id is therefore the larger of 1 and
  their number in the reasoning result: at least one, and exactly one unless the
  reasoning step reported the id more than once.
\<close>

theorem temporal_entry_count:
  assumes "tv_violation tv"
    and "compliance_and_risk_audit fr cr tv = Inr a"
  shows "\<exists>xs ys. dict_get_default cr ''policy_violations'' (JArr []) = JArr xs
          \<and> policy_violations a = JArr ys
          \<and> list_all2 (\<lambda>x y. normalize_severity fr x = Inr y) xs (take (length xs) ys)
          \<and> ys = take (length xs) ys
                 @ (if time_entry_count xs = 0 then [time_violation_entry tv] else [])
          \<and> time_entry_count ys = max 1 (time_entry_count xs)"
proof -
  from audit_Inr [OF assms(2)] obtain pv1 where
    n: "normalize_violations fr (dict_get_default cr ''policy_violations'' (JArr [])) = Inr pv1"
    and i: "inject_time_violation tv pv1 = Inr (policy_violations a)" by auto
  from inject_violation [OF assms(1) i] obtain ns where
    ns: "pv1 = JArr ns"
    and ys: "policy_violations a
        = JArr (ns @ (if time_entry_count ns = 0 then [time_violation_entry tv] else []))"
    by auto
  have "\<exists>xs. dict_get_default cr ''policy_violations'' (JArr []) = JArr xs"
  proof (rule ccontr)
    assume c: "\<not> ?thesis"
    then have "pv1 = dict_get_default cr ''policy_violations'' (JArr [])"
      using normalize_violations_other [OF n] by blast
    with ns c show False by simp
  qed
  then obtain xs where xs: "dict_get_default cr ''policy_violations'' (JArr []) = JArr xs" ..
  with n ns have all2: "list_all2 (\<lambda>x y. normalize_severity fr x = Inr y) xs ns"
    by (simp add: normalize_violations_JArr)
  then have len: "length ns = length xs" by (simp add: list_all2_lengthD)
  have cnt: "time_entry_count ns = time_entry_count xs"
    using all2 by (rule normalize_keeps_count)
  define zs where "zs = ns @ (if time_entry_count xs = 0 then [time_violation_entry tv] else [])"
  have pz: "policy_violations a = JArr zs" using ys cnt by (simp add: zs_def)
  have tk: "take (length xs) zs = ns" using len by (simp add: zs_def)
  have "time_entry_count zs = max 1 (time_entry_count xs)"
    using cnt by (auto simp: zs_def count_append_entry)
  with xs pz all2 tk show ?thesis
    by (intro exI [of _ xs] exI [of _ zs]) (simp add: zs_def)
qed

text \<open>
  Claim C2, as amended. After the assembler's normalisation every member of the violation
  list carries a string severity whose lowercase form is one of low, medium, high,
  critical. A severity that is accepted (a string that is canonical once lowercased)
  passes through as written, capitals included; every other severity (absent, not a
  string, any other text) becomes medium.
\<close>

theorem severity_after_normalization:
  assumes "\<forall>f. lower (fr f) \<notin> set severity_values"
    and "compliance_and_risk_audit fr cr tv = Inr a"
    and "policy_violations a = JArr ys"
  shows "\<exists>xs. dict_get_default cr ''policy_violations'' (JArr []) = JArr xs
      \<and> length xs \<le> length ys
      \<and> (\<forall>i<length xs. \<exists>d. xs ! i = JObj d
             \<and> ys ! i = JObj (if severity_accepted d then d
                              else dict_set d ''severity'' (JStr ''medium'')))
      \<and> (\<forall>y\<in>set ys. \<exists>d s. y = JObj d \<and> dict_get d ''severity'' = Some (JStr s)
             \<and> lower s \<in> set severity_values)"
proof -
  from audit_Inr [OF assms(2)] assms(3) obtain pv1 where
    n: "normalize_violations fr (dict_get_default cr ''policy_violations'' (JArr [])) = Inr pv1"
    and i: "inject_time_violation tv pv1 = Inr (JArr ys)" by auto
  from inject_JArr [OF i] obtain ns where
    ns: "pv1 = JArr ns" "ys = ns \<or> ys = ns @ [time_violation_entry tv]" by blast
  have "\<exists>xs. dict_get_default cr ''policy_violations'' (JArr []) = JArr xs"
  proof (rule ccontr)
    assume "\<not> ?thesis"
    then have "pv1 = dict_get_default cr ''policy_violations'' (JArr [])"
      using normalize_violations_other [OF n] by blast
    with ns(1) \<open>\<not> ?thesis\<close> show False by simp
  qed
  then obtain xs where xs: "dict_get_default cr ''policy_violations'' (JArr []) = JArr xs" ..
  with n ns(1) have all2: "list_all2 (\<lambda>x y. normalize_severity fr x = Inr y) xs ns"
    by (simp add: normalize_violations_JArr)
  then have len: "length ns = length xs" by (simp add: list_all2_lengthD)
  have pointwise: "\<exists>d. xs ! i = JObj d
      \<and> ns ! i = JObj (if severity_accepted d then d else dict_set d ''severity'' (JStr ''medium''))"
    if "i < length xs" for i
  proof -
    from all2 that have eq: "normalize_severity fr (xs ! i) = Inr (ns ! i)"
      by (simp add: list_all2_conv_all_nth)
    then obtain d where d: "xs ! i = JObj d" by (auto dest: normalize_severity_Inr)
    with eq normalize_severity_dict [OF assms(1), of d] show ?thesis by simp
  qed
  have nth_ys: "ys ! i = ns ! i" if "i < length xs" for i
    using ns(2) len that by (auto simp: nth_append)
  have canon_ns: "\<exists>d s. y = JObj d \<and> dict_get d ''severity'' = Some (JStr s)
      \<and> lower s \<in> set severity_values" if "y \<in> set ns" for y
  proof -
    from that len obtain i where i: "i < length xs" "y = ns ! i"
      by (auto simp: in_set_conv_nth)
    from pointwise [OF i(1)] obtain d where
      "y = JObj (if severity_accepted d then d else dict_set d ''severity'' (JStr ''medium''))"
      using i(2) by auto
    with normalized_severity_canonical [of d] show ?thesis by blast
  qed
  have canon: "\<forall>y\<in>set ys. \<exists>d s. y = JObj d \<and> dict_get d ''severity'' = Some (JStr s)
      \<and> lower s \<in> set severity_values"
    using ns(2) canon_ns entry_severity_canonical [of tv] by auto
  have "length xs \<le> length ys" using ns(2) len by auto
  with xs pointwise nth_ys canon show ?thesis by (intro exI [of _ xs]) simp
qed

text \<open>
  Claim C6. In the assembled audit, \<open>is_within_policy\<close> is the value the reasoning result
  supplies under that key, kept as it is; when the key is missing it is the negation of
  "the final violation list (after the temporal injection) is non-empty".
\<close>

theorem within_policy_derivation:
  assumes "compliance_and_risk_audit fr cr tv = Inr a"
  shows "\<exists>n. py_len (policy_violations a) = Inr n
      \<and> is_within_policy a =
          (case dict_get cr ''is_within_policy'' of None \<Rightarrow> JBool (\<not> 0 < n) | Some v \<Rightarrow> v)"
  using audit_Inr [OF assms]
  by (auto simp: dict_get_def dict_get_default_def split: option.splits)


text \<open>
  Claim C1 as stated fails: when the reasoning step reports the temporal violation twice
  under the fixed id, both entries stay in the final list.
\<close>

theorem temporal_entry_twice:
  "tv_violation tv_evening
   \<and> compliance_and_risk_audit float_repr_sample cr_time_twice tv_evening =
       Inr \<lparr> is_within_policy = JBool False,
             compliance_flags = JArr [JStr ''Policy Violation Detected''],
             policy_violations = JArr [reported_time_violation, reported_time_violation],
             detected_threats = JArr [],
             risk_scores = default_risk_scores \<rparr>
   \<and> time_entry_count [reported_time_violation, reported_time_violation] = 2"
  by code_simp

text \<open>
  Claim C2 as stated fails: the severity \<open>High\<close> is not one of the four canonical values,
  and the assembler leaves it as it is.
\<close>

theorem severity_kept_capitalised:
  "compliance_and_risk_audit float_repr_sample cr_capital_severity tv_daytime =
       Inr \<lparr> is_within_policy = JBool False,
             compliance_flags = JArr [JStr ''Policy Violation Detected''],
             policy_violations = JArr [threat_violation (JStr ''High'')],
             detected_threats = JArr [],
             risk_scores = default_risk_scores \<rparr>
   \<and> dict_get_default cr_capital_severity ''policy_violations'' JNull = JArr [threat_violation (JStr ''High'')]
   \<and> ''High'' \<notin> set severity_values"
  by code_simp

lemma float_repr_sample_not_severity: "\<forall>f. lower (float_repr_sample f) \<notin> set severity_values"
proof
  fix f
  show "lower (float_repr_sample f) \<notin> set severity_values"
  proof (cases f)
    case NaN
    have "lower ''nan'' \<notin> set severity_values" by code_simp
    with NaN show ?thesis by (simp add: float_repr_sample_def)
  next
    case NegInf
    have "lower ''-inf'' \<notin> set severity_values" by code_simp
    with NegInf show ?thesis by (simp add: float_repr_sample_def)
  next
    case (Fin r)
    from show_int_hd [of "\<lfloor>r\<rfloor>"] have "lower (show_int \<lfloor>r\<rfloor> @ ''.0'') \<notin> set severity_values"
      by (intro not_severity_by_hd) auto
    with Fin show ?thesis by (simp add: float_repr_sample_def)
  next
    case PosInf
    have "lower ''inf'' \<notin> set severity_values" by code_simp
    with PosInf show ?thesis by (simp add: float_repr_sample_def)
  qed
qed

theorem temporal_entry_count_witness:
  "tv_violation tv_evening
   \<and> compliance_and_risk_audit float_repr_sample cr_threat tv_evening =
       Inr \<lparr> is_within_policy = JBool False,
             compliance_flags = JArr [JStr ''Policy Violation Detected''],
             policy_violations = JArr [threat_violation (JStr ''medium''), time_violation_entry tv_evening],
             detected_threats = JArr [],
             risk_scores = default_risk_scores \<rparr>
   \<and> time_entry_count [threat_violation (JInt 3)] = 0
   \<and> time_entry_count [threat_violation (JStr ''medium''), time_violation_entry tv_evening] = 1"
proof -
  have h1: "tv_violation tv_evening" by (simp add: tv_evening_def)
  have h2: "compliance_and_risk_audit float_repr_sample cr_threat tv_evening =
       Inr \<lparr> is_within_policy = JBool False,
             compliance_flags = JArr [JStr ''Policy Violation Detected''],
             policy_violations = JArr [threat_violation (JStr ''medium''), time_violation_entry tv_evening],
             detected_threats = JArr [],
             risk_scores = default_risk_scores \<rparr>"
    by code_simp
  have x: "dict_get_default cr_threat ''policy_violations'' (JArr []) = JArr [threat_violation (JInt 3)]"
    by code_simp
  have c0: "time_entry_count [threat_violation (JInt 3)] = 0" by code_simp
  from temporal_entry_count [OF h1 h2] x c0
  have c1: "time_entry_count [threat_violation (JStr ''medium''), time_violation_entry tv_evening] = 1"
    by auto
  show ?thesis by (intro conjI) (rule h1 h2 c0 c1)+
qed

theorem severity_after_normalization_witness:
  "(\<forall>f. lower (float_repr_sample f) \<notin> set severity_values)
   \<and> (\<exists>a. compliance_and_risk_audit float_repr_sample cr_threat tv_daytime = Inr a
        \<and> policy_violations a = JArr [threat_violation (JStr ''medium'')])
   \<and> \<not> severity_accepted [(''severity'', JInt 3)]
   \<and> (\<exists>d s. threat_violation (JStr ''medium'') = JObj d
          \<and> dict_get d ''severity'' = Some (JStr s) \<and> lower s \<in> set severity_values)"
proof -
  have e: "compliance_and_risk_audit float_repr_sample cr_threat tv_daytime =
       Inr \<lparr> is_within_policy = JBool False,
             compliance_flags = JArr [JStr ''Policy Violation Detected''],
             policy_violations = JArr [threat_violation (JStr ''medium'')],
             detected_threats = JArr [],
             risk_scores = default_risk_scores \<rparr>"
    by code_simp
  have p: "policy_violations \<lparr> is_within_policy = JBool False,
             compliance_flags = JArr [JStr ''Policy Violation Detected''],
             policy_violations = JArr [threat_violation (JStr ''medium'')],
             detected_threats = JArr [],
             risk_scores = default_risk_scores \<rparr> = JArr [threat_violation (JStr ''medium'')]"
    by simp
  have n: "\<not> severity_accepted [(''severity'', JInt 3)]" by code_simp
  from severity_after_normalization [OF float_repr_sample_not_severity e p]
  have "\<exists>d s. threat_violation (JStr ''medium'') = JObj d
          \<and> dict_get d ''severity'' = Some (JStr s) \<and> lower s \<in> set severity_values"
    by auto
  with float_repr_sample_not_severity e n show ?thesis by auto
qed

theorem within_policy_derivation_witness:
  "(\<exists>a. compliance_and_risk_audit float_repr_sample cr_inconsistent tv_daytime = Inr a
       \<and> py_len (policy_violations a) = Inr 1 \<and> is_within_policy a = JBool True)
   \<and> (\<exists>a. compliance_and_risk_audit float_repr_sample cr_threat tv_daytime = Inr a
       \<and> py_len (policy_violations a) = Inr 1 \<and> is_within_policy a = JBool False)
   \<and> (\<exists>a. compliance_and_risk_audit float_repr_sample [] tv_daytime = Inr a
       \<and> py_len (policy_violations a) = Inr 0 \<and> is_within_policy a = JBool True)"
proof -
  have e1: "compliance_and_risk_audit float_repr_sample cr_inconsistent tv_daytime =
       Inr \<lparr> is_within_policy = JBool True,
             compliance_flags = JArr [JStr ''Policy Violation Detected''],
             policy_violations = JArr [threat_violation (JStr ''critical'')],
             detected_threats = JArr [],
             risk_scores = default_risk_scores \<rparr>"
    by code_simp
  have e2: "compliance_and_risk_audit float_repr_sample cr_threat tv_daytime =
       Inr \<lparr> is_within_policy = JBool False,
             compliance_flags = JArr [JStr ''Policy Violation Detected''],
             policy_violations = JArr [threat_violation (JStr ''medium'')],
             detected_threats = JArr [],
             risk_scores = default_risk_scores \<rparr>"
    by code_simp
  have e3: "compliance_and_risk_audit float_repr_sample [] tv_daytime =
       Inr \<lparr> is_within_policy = JBool True,
             compliance_flags = JArr [],
             policy_violations = JArr [],
             detected_threats = JArr [],
             risk_scores = default_risk_scores \<rparr>"
    by code_simp
  have g1: "dict_get cr_inconsistent ''is_within_policy'' = Some (JBool True)" by code_simp
  have g2: "dict_get cr_threat ''is_within_policy'' = None" by code_simp
  have g3: "dict_get [] ''is_within_policy'' = None" by code_simp
  from within_policy_derivation [OF e1] within_policy_derivation [OF e2]
    within_policy_derivation [OF e3] g1 g2 g3 e1 e2 e3
  show ?thesis by simp
qed

section \<open>Properties of the acoustic segmenter\<close>

lemma concat_map_skip:
  "concat (map (\<lambda>i. if P i then [] else [f i]) xs) = map f (filter (\<lambda>i. \<not> P i) xs)"
  by (induction xs) auto

lemma segment_loop_filter:
  "segment_loop dsp sr y =
     map (\<lambda>i. segment_result dsp y i (window (SEGMENT_DURATION_SECONDS * sr) y i))
         (filter (\<lambda>i. \<not> too_short sr (window (SEGMENT_DURATION_SECONDS * sr) y i))
                 [0..<num_segments (SEGMENT_DURATION_SECONDS * sr) (length y)])"
  by (simp add: segment_loop_def Let_def concat_map_skip)

lemma window_length:
  "length (window seg y i) = min seg (length y - i * seg)"
  by (simp add: window_def Let_def)

lemma num_segments_pos: "0 < num_segments seg len"
  by (simp add: num_segments_def)

lemma inner_window_full:
  assumes "0 < seg" and "i + 1 < num_segments seg (length y)"
  shows "length (window seg y i) = seg"
proof -
  from assms(2) have "i + 2 \<le> (length y + seg - 1) div seg"
    by (simp add: num_segments_def max_def split: if_splits)
  with assms(1) have "(i + 2) * seg \<le> length y + seg - 1"
    by (simp add: less_eq_div_iff_mult_less_eq)
  then have "i * seg + seg < length y" using assms(1) by (simp add: algebra_simps)
  then show ?thesis by (simp add: window_length)
qed

lemma inner_window_kept:
  assumes "0 < sr" and "i + 1 < num_segments (SEGMENT_DURATION_SECONDS * sr) (length y)"
  shows "\<not> too_short sr (window (SEGMENT_DURATION_SECONDS * sr) y i)"
proof -
  have "0 < SEGMENT_DURATION_SECONDS * sr" using assms(1) by (simp add: SEGMENT_DURATION_SECONDS_def)
  from inner_window_full [OF this assms(2)] show ?thesis
    by (simp add: too_short_def SEGMENT_DURATION_SECONDS_def)
qed

lemma filter_upt_last:
  assumes "0 < n" and "\<And>i. i + 1 < n \<Longrightarrow> Q i"
  shows "filter Q [0..<n] = [0..<n - 1] @ (if Q (n - 1) then [n - 1] else [])"
proof -
  from assms(1) obtain m where n: "n = Suc m" by (cases n) auto
  have "filter Q [0..<m] = [0..<m]" using assms(2) n by (auto simp: filter_id_conv)
  then show ?thesis using n by simp
qed

lemma mmss_samples: "seconds_to_mmss 0 = ''00:00''" "seconds_to_mmss 10 = ''00:10''"
  by code_simp+

text \<open>
  Claim C8, as amended. With windows of ten seconds, every window but the last is full
  and yields a segment; the last window yields a segment unless it holds fewer samples
  than half a second of audio (\<open>sr * 0.5\<close>). So the only window that can be dropped is
  the trailing one, and it is dropped exactly when it is shorter than half a second.
  When no window yields a segment the result is the single default segment.
\<close>

theorem windows_kept:
  assumes "0 < sr"
    and "seg = SEGMENT_DURATION_SECONDS * sr"
    and "n = num_segments seg (length y)"
  shows "segment_loop dsp sr y =
           map (\<lambda>i. segment_result dsp y i (window seg y i))
               ([0..<n - 1] @ (if too_short sr (window seg y (n - 1)) then [] else [n - 1]))
    \<and> (\<forall>i. i + 1 < n \<longrightarrow> length (window seg y i) = seg \<and> \<not> too_short sr (window seg y i))
    \<and> length (window seg y (n - 1)) = min seg (length y - (n - 1) * seg)
    \<and> (too_short sr (window seg y (n - 1)) \<longleftrightarrow> 2 * (length y - (n - 1) * seg) < sr)
    \<and> length (segment_loop dsp sr y) = (if 2 * (length y - (n - 1) * seg) < sr then n - 1 else n)
    \<and> analyze_audio dsp (Some y) =
        (if segment_loop dsp SAMPLE_RATE y = [] then [default_segment]
         else segment_loop dsp SAMPLE_RATE y)"
proof -
  have segpos: "0 < seg" using assms by (simp add: SEGMENT_DURATION_SECONDS_def)
  have npos: "0 < n" using assms(3) by (simp add: num_segments_pos)
  have inner: "\<forall>i. i + 1 < n \<longrightarrow> length (window seg y i) = seg \<and> \<not> too_short sr (window seg y i)"
    using inner_window_full [OF segpos] inner_window_kept [OF assms(1)] assms(2,3) by blast
  have flt: "filter (\<lambda>i. \<not> too_short sr (window seg y i)) [0..<n]
           = [0..<n - 1] @ (if \<not> too_short sr (window seg y (n - 1)) then [n - 1] else [])"
    by (rule filter_upt_last [OF npos]) (use inner in blast)
  have loop: "segment_loop dsp sr y =
           map (\<lambda>i. segment_result dsp y i (window seg y i))
               ([0..<n - 1] @ (if too_short sr (window seg y (n - 1)) then [] else [n - 1]))"
    unfolding segment_loop_filter assms(2) [symmetric] assms(3) [symmetric] flt by simp
  have last: "length (window seg y (n - 1)) = min seg (length y - (n - 1) * seg)"
    by (rule window_length)
  have short: "too_short sr (window seg y (n - 1)) \<longleftrightarrow> 2 * (length y - (n - 1) * seg) < sr"
    using assms(1,2) by (auto simp: too_short_def window_length min_def SEGMENT_DURATION_SECONDS_def)
  have len: "length (segment_loop dsp sr y) = (if 2 * (length y - (n - 1) * seg) < sr then n - 1 else n)"
    unfolding loop using npos short by simp
  have top: "analyze_audio dsp (Some y) =
        (if segment_loop dsp SAMPLE_RATE y = [] then [default_segment]
         else segment_loop dsp SAMPLE_RATE y)"
    by (simp add: analyze_audio_def Let_def)
  from loop inner last short len top show ?thesis by blast
qed

theorem windows_kept_witness:
  "0 < SAMPLE_RATE
   \<and> num_segments (SEGMENT_DURATION_SECONDS * SAMPLE_RATE) (length clip_10_25s) = 2
   \<and> length (window (SEGMENT_DURATION_SECONDS * SAMPLE_RATE) clip_10_25s 1) = 4000
   \<and> too_short SAMPLE_RATE (window (SEGMENT_DURATION_SECONDS * SAMPLE_RATE) clip_10_25s 1)
   \<and> length (segment_loop dsp_sample SAMPLE_RATE clip_10_25s) = 1"
proof -
  have h: "0 < SAMPLE_RATE" by (simp add: SAMPLE_RATE_def)
  have n: "2 = num_segments (SEGMENT_DURATION_SECONDS * SAMPLE_RATE) (length clip_10_25s)"
    by (simp add: num_segments_def SEGMENT_DURATION_SECONDS_def SAMPLE_RATE_def clip_10_25s_def)
  have l: "length clip_10_25s = 164000" by (simp add: clip_10_25s_def)
  from windows_kept [OF h refl n, of dsp_sample] h n l
  show ?thesis by (simp add: SEGMENT_DURATION_SECONDS_def SAMPLE_RATE_def)
qed

text \<open>
  Claim C8 as stated fails: in a clip of eleven seconds the trailing window lasts one
  second, less than half of the ten-second window, and still yields a segment.
\<close>

theorem short_trailing_window_kept:
  "length clip_11s = 11 * SAMPLE_RATE
   \<and> length (window (SEGMENT_DURATION_SECONDS * SAMPLE_RATE) clip_11s 1) = 1 * SAMPLE_RATE
   \<and> 2 * (1 * SAMPLE_RATE) < SEGMENT_DURATION_SECONDS * SAMPLE_RATE
   \<and> map timestamp (analyze_audio dsp_sample (Some clip_11s)) = [''00:00'', ''00:10'']"
  by (simp add: analyze_audio_def segment_loop_def num_segments_def SEGMENT_DURATION_SECONDS_def
        SAMPLE_RATE_def clip_11s_def window_def too_short_def segment_result_def upt_rec Let_def
        mmss_samples)

section \<open>Properties of the reasoning orchestrator\<close>

lemma run_primary_ok:
  "try_block (service (primary_call p)) = Inr r \<Longrightarrow> run_compliance_analysis service p = (r, [primary_call p])"
  by (simp add: run_compliance_analysis_def)

lemma run_primary_json:
  "try_block (service (primary_call p)) = Inl (JSONDecodeError exc) \<Longrightarrow>
   run_compliance_analysis service p =
     (build_fallback_compliance (''JSON parse error: '' @ exc), [primary_call p])"
  by (simp add: run_compliance_analysis_def)

lemma run_primary_other:
  "try_block (service (primary_call p)) = Inl (OtherException exc) \<Longrightarrow>
   run_compliance_analysis service p =
     (case try_block (service (secondary_call p)) of
        Inr result \<Rightarrow> result
      | Inl (JSONDecodeError exc2) \<Rightarrow> build_fallback_compliance (''JSON parse error: '' @ exc2)
      | Inl (OtherException exc2) \<Rightarrow> build_fallback_compliance exc2,
      [primary_call p, secondary_call p])"
  by (simp add: run_compliance_analysis_def split: sum.splits failure.splits)

lemma try_block_other_iff:
  "(\<exists>exc. try_block a = Inl (OtherException exc)) \<longleftrightarrow>
     (case a of
        CallError msg \<Rightarrow> True
      | JsonError msg \<Rightarrow> False
      | Parsed (JObj d) \<Rightarrow> isl (py_len (dict_get_default d ''policy_violations'' (JArr [])))
      | Parsed x \<Rightarrow> True)"
  by (cases a rule: try_block.cases) (auto simp: Let_def split: sum.splits)

text \<open>
  Claim C3, as amended. When the primary attempt ends with an exception other than a JSON
  decode error (the call fails, or the parsed value cannot be reported as a result dict),
  the orchestrator calls the service exactly once more, with the secondary model name and
  the same prompt and generation configuration, and returns that attempt's result if it
  succeeds. When the primary answer is not parseable as JSON it makes no second call and
  returns the fallback document at once. When the primary attempt succeeds its result is
  returned after this single call.
\<close>

theorem retry_policy:
  "(\<forall>exc. try_block (service (primary_call p)) = Inl (OtherException exc) \<longrightarrow>
       snd (run_compliance_analysis service p) = [primary_call p, secondary_call p]
       \<and> (\<forall>r. try_block (service (secondary_call p)) = Inr r \<longrightarrow>
              fst (run_compliance_analysis service p) = r))
   \<and> (\<forall>exc. try_block (service (primary_call p)) = Inl (JSONDecodeError exc) \<longrightarrow>
         run_compliance_analysis service p =
           (build_fallback_compliance (''JSON parse error: '' @ exc), [primary_call p]))
   \<and> (\<forall>r. try_block (service (primary_call p)) = Inr r \<longrightarrow>
         run_compliance_analysis service p = (r, [primary_call p]))
   \<and> (\<forall>msg. service (primary_call p) = CallError msg \<longrightarrow>
         snd (run_compliance_analysis service p) = [primary_call p, secondary_call p])
   \<and> (\<forall>msg. service (primary_call p) = JsonError msg \<longrightarrow>
         snd (run_compliance_analysis service p) = [primary_call p])
   \<and> call_prompt (secondary_call p) = call_prompt (primary_call p)
   \<and> call_config (secondary_call p) = call_config (primary_call p)
   \<and> model_name (secondary_call p) \<noteq> model_name (primary_call p)"
  by (auto simp: run_primary_ok run_primary_json run_primary_other primary_call_def secondary_call_def)

theorem retry_policy_witness:
  "service_down (primary_call ''prompt'') = CallError ''503 Service Unavailable''
   \<and> snd (run_compliance_analysis service_down ''prompt'')
       = [primary_call ''prompt'', secondary_call ''prompt'']"
proof -
  have h: "service_down (primary_call ''prompt'') = CallError ''503 Service Unavailable''"
    by (simp add: service_down_def)
  from retry_policy [of service_down "''prompt''"] h show ?thesis by blast
qed

text \<open>
  Claim C3 as stated fails: a primary answer that is not JSON is not retried; the only
  call made is the primary one.
\<close>

theorem malformed_output_not_retried:
  "service_malformed (primary_call ''prompt'') = JsonError ''Expecting value: line 1 column 1 (char 0)''
   \<and> run_compliance_analysis service_malformed ''prompt'' =
       (build_fallback_compliance ''JSON parse error: Expecting value: line 1 column 1 (char 0)'',
        [primary_call ''prompt''])"
  by (simp add: service_malformed_def run_compliance_analysis_def)

lemma fallback_fields:
  "map fst (build_fallback_compliance msg) = FALLBACK_KEYS"
  "dict_get (build_fallback_compliance msg) ''is_within_policy'' = Some (JBool True)"
  "dict_get (build_fallback_compliance msg) ''policy_violations'' = Some (JArr [])"
  "dict_get (build_fallback_compliance msg) ''agent_politeness'' = Some (JStr ''fair'')"
  "dict_get (build_fallback_compliance msg) ''agent_empathy'' = Some (JStr ''medium'')"
  "dict_get (build_fallback_compliance msg) ''agent_professionalism'' = Some (JStr ''fair'')"
  "dict_get (build_fallback_compliance msg) ''final_status'' = Some (JStr ''Pending Review'')"
  "dict_get (build_fallback_compliance msg) ''summary'' =
     Some (JStr (if msg \<noteq> [] then ''Analysis could not be completed. Error: '' @ msg
                 else ''Analysis could not be completed due to a processing error.''))"
  by (simp_all add: build_fallback_compliance_def dict_get_def FALLBACK_KEYS_def)

text \<open>
  Claim C4. When the primary and the secondary attempt both fail (or the primary answer
  is not JSON), the orchestrator returns, after at most two calls, the fixed fallback
  document written out below: all twenty-three keys with their neutral values,
  \<open>is_within_policy\<close> true, no violations, ratings fair, medium, fair, status
  "Pending Review", and a non-empty summary that ends with the failure reason.
\<close>

theorem fallback_document:
  assumes "try_block (service (primary_call p)) = Inl f1"
    and "try_block (service (secondary_call p)) = Inl f2"
    and "msg = (case f1 of
                  JSONDecodeError exc \<Rightarrow> ''JSON parse error: '' @ exc
                | OtherException exc \<Rightarrow>
                    (case f2 of
                       JSONDecodeError exc2 \<Rightarrow> ''JSON parse error: '' @ exc2
                     | OtherException exc2 \<Rightarrow> exc2))"
    and "summary = (if msg \<noteq> [] then ''Analysis could not be completed. Error: '' @ msg
                    else ''Analysis could not be completed due to a processing error.'')"
    and "doc = fst (run_compliance_analysis service p)"
  shows "doc =
      [(''summary'', JStr summary),
       (''category'', JStr ''Unknown''),
       (''overall_sentiment'', JStr ''Unknown''),
       (''emotional_tone'', JStr ''Unknown''),
       (''tone_progression'', JArr [JStr ''Unknown'']),
       (''emotional_graph'',
          JArr [JObj [(''timestamp'', JStr ''00:00''), (''tone'', JStr ''Neutral''),
                      (''score'', JFloat (Fin (1 / 2))), (''acoustic_arousal'', JStr ''Low'')]]),
       (''emotion_timeline'',
          JArr [JObj [(''time'', JStr ''start''), (''emotion'', JStr ''unknown'')],
                JObj [(''time'', JStr ''middle''), (''emotion'', JStr ''unknown'')],
                JObj [(''time'', JStr ''end''), (''emotion'', JStr ''unknown'')]]),
       (''is_within_policy'', JBool True),
       (''compliance_flags'', JArr []),
       (''policy_violations'', JArr []),
       (''detected_threats'', JArr []),
       (''fraud_risk'', JStr ''low''),
       (''escalation_risk'', JStr ''low''),
       (''urgency_level'', JStr ''low''),
       (''risk_escalation_score'', JInt 0),
       (''agent_politeness'', JStr ''fair''),
       (''agent_empathy'', JStr ''medium''),
       (''agent_professionalism'', JStr ''fair''),
       (''agent_quality_score'', JInt 50),
       (''call_outcome_prediction'', JStr ''Resolved''),
       (''repeat_complaint_detected'', JBool False),
       (''final_status'', JStr ''Pending Review''),
       (''recommended_action'', JStr ''Manual review required.'')]
    \<and> map fst doc = FALLBACK_KEYS
    \<and> dict_get doc ''is_within_policy'' = Some (JBool True)
    \<and> dict_get doc ''policy_violations'' = Some (JArr [])
    \<and> dict_get doc ''agent_politeness'' = Some (JStr ''fair'')
    \<and> dict_get doc ''agent_empathy'' = Some (JStr ''medium'')
    \<and> dict_get doc ''agent_professionalism'' = Some (JStr ''fair'')
    \<and> dict_get doc ''final_status'' = Some (JStr ''Pending Review'')
    \<and> dict_get doc ''summary'' = Some (JStr summary)
    \<and> summary \<noteq> []
    \<and> (msg \<noteq> [] \<longrightarrow> suffix msg summary)
    \<and> length (snd (run_compliance_analysis service p)) \<le> 2"
proof -
  have doc: "doc = build_fallback_compliance msg"
    using assms(1,2,3,5) by (cases f1; cases f2) (simp_all add: run_compliance_analysis_def)
  have calls: "length (snd (run_compliance_analysis service p)) \<le> 2"
    using assms(1,2) by (cases f1; cases f2) (simp_all add: run_compliance_analysis_def)
  have full: "doc =
      [(''summary'', JStr summary),
       (''category'', JStr ''Unknown''),
       (''overall_sentiment'', JStr ''Unknown''),
       (''emotional_tone'', JStr ''Unknown''),
       (''tone_progression'', JArr [JStr ''Unknown'']),
       (''emotional_graph'',
          JArr [JObj [(''timestamp'', JStr ''00:00''), (''tone'', JStr ''Neutral''),
                      (''score'', JFloat (Fin (1 / 2))), (''acoustic_arousal'', JStr ''Low'')]]),
       (''emotion_timeline'',
          JArr [JObj [(''time'', JStr ''start''), (''emotion'', JStr ''unknown'')],
                JObj [(''time'', JStr ''middle''), (''emotion'', JStr ''unknown'')],
                JObj [(''time'', JStr ''end''), (''emotion'', JStr ''unknown'')]]),
       (''is_within_policy'', JBool True),
       (''compliance_flags'', JArr []),
       (''policy_violations'', JArr []),
       (''detected_threats'', JArr []),
       (''fraud_risk'', JStr ''low''),
       (''escalation_risk'', JStr ''low''),
       (''urgency_level'', JStr ''low''),
       (''risk_escalation_score'', JInt 0),
       (''agent_politeness'', JStr ''fair''),
       (''agent_empathy'', JStr ''medium''),
       (''agent_professionalism'', JStr ''fair''),
       (''agent_quality_score'', JInt 50),
       (''call_outcome_prediction'', JStr ''Resolved''),
       (''repeat_complaint_detected'', JBool False),
       (''final_status'', JStr ''Pending Review''),
       (''recommended_action'', JStr ''Manual review required.'')]"
    unfolding doc assms(4) by (simp add: build_fallback_compliance_def)
  have s1: "summary \<noteq> []" unfolding assms(4) by simp
  have s2: "msg \<noteq> [] \<longrightarrow> suffix msg summary" unfolding assms(4) by (simp add: suffix_def)
  have s3: "dict_get doc ''summary'' = Some (JStr summary)"
    unfolding doc assms(4) fallback_fields by simp
  have k: "map fst doc = FALLBACK_KEYS" unfolding doc by (rule fallback_fields)
  have w: "dict_get doc ''is_within_policy'' = Some (JBool True)"
    unfolding doc by (rule fallback_fields)
  have v: "dict_get doc ''policy_violations'' = Some (JArr [])"
    unfolding doc by (rule fallback_fields)
  have a1: "dict_get doc ''agent_politeness'' = Some (JStr ''fair'')"
    unfolding doc by (rule fallback_fields)
  have a2: "dict_get doc ''agent_empathy'' = Some (JStr ''medium'')"
    unfolding doc by (rule fallback_fields)
  have a3: "dict_get doc ''agent_professionalism'' = Some (JStr ''fair'')"
    unfolding doc by (rule fallback_fields)
  have st: "dict_get doc ''final_status'' = Some (JStr ''Pending Review'')"
    unfolding doc by (rule fallback_fields)
  show ?thesis
    by (intro conjI) (rule full k w v a1 a2 a3 st s3 s1 s2 calls)+
qed

theorem fallback_document_witness:
  "try_block (service_down (primary_call ''prompt'')) = Inl (OtherException ''503 Service Unavailable'')
   \<and> try_block (service_down (secondary_call ''prompt'')) = Inl (OtherException ''503 Service Unavailable'')
   \<and> dict_get (fst (run_compliance_analysis service_down ''prompt'')) ''summary'' =
        Some (JStr ''Analysis could not be completed. Error: 503 Service Unavailable'')
   \<and> dict_get (fst (run_compliance_analysis service_down ''prompt'')) ''is_within_policy'' = Some (JBool True)
   \<and> dict_get (fst (run_compliance_analysis service_down ''prompt'')) ''policy_violations'' = Some (JArr [])
   \<and> map fst (fst (run_compliance_analysis service_down ''prompt'')) = FALLBACK_KEYS"
proof -
  have h1: "try_block (service_down (primary_call ''prompt'')) = Inl (OtherException ''503 Service Unavailable'')"
    by (simp add: service_down_def)
  have h2: "try_block (service_down (secondary_call ''prompt'')) = Inl (OtherException ''503 Service Unavailable'')"
    by (simp add: service_down_def)
  have m: "''503 Service Unavailable'' =
      (case OtherException ''503 Service Unavailable'' of
         JSONDecodeError exc \<Rightarrow> ''JSON parse error: '' @ exc
       | OtherException exc \<Rightarrow>
           (case OtherException ''503 Service Unavailable'' of
              JSONDecodeError exc2 \<Rightarrow> ''JSON parse error: '' @ exc2
            | OtherException exc2 \<Rightarrow> exc2))"
    by simp
  have s: "''Analysis could not be completed. Error: 503 Service Unavailable'' =
      (if ''503 Service Unavailable'' \<noteq> []
       then ''Analysis could not be completed. Error: '' @ ''503 Service Unavailable''
       else ''Analysis could not be completed due to a processing error.'')"
    by simp
  note r = fallback_document [where service = service_down and p = "''prompt''", OF h1 h2 m s refl]
  note k = r [THEN conjunct2, THEN conjunct1]
  note w = r [THEN conjunct2, THEN conjunct2, THEN conjunct1]
  note v = r [THEN conjunct2, THEN conjunct2, THEN conjunct2, THEN conjunct1]
  note su = r [THEN conjunct2, THEN conjunct2, THEN conjunct2, THEN conjunct2, THEN conjunct2,
               THEN conjunct2, THEN conjunct2, THEN conjunct2, THEN conjunct1]
  show ?thesis by (intro conjI) (rule h1 h2 su w v k)+
qed


section \<open>Properties of the clause retriever and of the merge\<close>

lemma first_seen_keys:
  "key ` set (first_seen key seen xs) = key ` set xs - seen"
  by (induction xs arbitrary: seen) auto

lemma first_seen_distinct: "distinct (map key (first_seen key seen xs))"
  by (induction xs arbitrary: seen) (auto simp: first_seen_keys)

lemma first_seen_subseq: "subseq (first_seen key seen xs) xs"
  by (induction xs arbitrary: seen) auto

lemma first_seen_append:
  "first_seen key seen (xs @ ys) =
     first_seen key seen xs @ first_seen key (seen \<union> set (map key xs)) ys"
  by (induction xs arbitrary: seen) (auto simp: insert_absorb)

lemma foldl_hit_step:
  "foldl (hit_step ex) st hs =
     \<lparr> seen_clauses = seen_clauses st \<union> set (map (hit_key ex) hs),
       clauses = clauses st @ map (hit_clause ex) (first_seen (hit_key ex) (seen_clauses st) hs) \<rparr>"
proof (induction hs arbitrary: st)
  case Nil
  then show ?case by simp
next
  case (Cons h hs)
  show ?case
    by (simp add: Cons.IH) (auto simp: hit_step_def add_if_new_def insert_absorb)
qed

lemma foldl_rbi_hits:
  "foldl (\<lambda>s doc. add_if_new (rbi_key ex doc) (rbi_clause ex doc) s) st docs
     = foldl (hit_step ex) st (map RbiHit docs)"
  by (induction docs arbitrary: st) (simp_all add: hit_step_def)

lemma foldl_client_hits:
  "foldl (\<lambda>s doc. add_if_new (client_key doc) (client_clause doc) s) st docs
     = foldl (hit_step ex) st (map ClientHit docs)"
  by (induction docs arbitrary: st) (simp_all add: hit_step_def)

lemma message_step_hits:
  "message_step ex rbi client st msg = foldl (hit_step ex) st (message_hits rbi client msg)"
  by (simp add: message_step_def message_hits_def Let_def foldl_rbi_hits foldl_client_hits [of _ _ ex]
           split: sum.splits option.splits)

lemma foldl_message_step:
  "foldl (message_step ex rbi client) st msgs
     = foldl (hit_step ex) st (concat (map (message_hits rbi client) msgs))"
  by (induction msgs arbitrary: st) (simp_all add: message_step_hits)

lemma retrieve_first_seen:
  "retrieve_relevant_clauses ex (Some rbi) client threads
     = map (hit_clause ex) (first_seen (hit_key ex) {} (retrieval_hits rbi client threads))"
  by (simp add: retrieve_relevant_clauses_def retrieval_hits_def foldl_message_step foldl_hit_step)

lemma foldl_merge_step:
  "foldl merge_step (seen, acc) rag =
     (seen \<union> set (map clause_id rag), acc @ first_seen clause_id seen rag)"
  by (induction rag arbitrary: seen acc) (auto simp: merge_step_def insert_absorb)

lemma merge_first_seen:
  "merge_clauses corpus rag = corpus @ first_seen clause_id (set (map clause_id corpus)) rag"
  by (simp add: merge_clauses_def foldl_merge_step)

lemma rbi_key_is_clause_id: "is_rbi_hit h \<Longrightarrow> clause_id (hit_clause ex h) = hit_key ex h"
  by (cases h) (simp_all add: is_rbi_hit_def rbi_clause_def)

lemma distinct_rbi_ids:
  assumes "distinct (map (hit_key ex) hs)"
  shows "distinct (map (\<lambda>h. clause_id (hit_clause ex h)) (filter is_rbi_hit hs))"
proof -
  have "map (\<lambda>h. clause_id (hit_clause ex h)) (filter is_rbi_hit hs)
        = map (hit_key ex) (filter is_rbi_hit hs)"
    by (rule map_cong) (auto simp: rbi_key_is_clause_id)
  moreover have "distinct (map (hit_key ex) (filter is_rbi_hit hs))"
    using assms by (rule distinct_map_filter)
  ultimately show ?thesis by (simp only:)
qed

text \<open>
  Claim C5, as amended. The retriever keeps, in first-seen order, the first hit for each
  deduplication key, where the key of a policy-index hit is its \<open>clause_id\<close> and the key
  of a client-index hit is \<open>CLIENT-\<close> followed by its rule name: no two entries have the
  same key, so no two policy-index entries share a \<open>clause_id\<close> (client entries may). The
  orchestrating layer's union is the corpus followed by the retrieved clauses whose
  \<open>clause_id\<close> is new, in first-seen order; it has no two entries with the same
  \<open>clause_id\<close> provided the corpus has none.
\<close>

theorem retrieval_deduplication:
  assumes "kept = first_seen (hit_key ex) {} (retrieval_hits rbi client threads)"
  shows "retrieve_relevant_clauses ex (Some rbi) client threads = map (hit_clause ex) kept
    \<and> subseq kept (retrieval_hits rbi client threads)
    \<and> distinct (map (hit_key ex) kept)
    \<and> set (map (hit_key ex) kept) = set (map (hit_key ex) (retrieval_hits rbi client threads))
    \<and> distinct (map (\<lambda>h. clause_id (hit_clause ex h)) (filter is_rbi_hit kept))
    \<and> retrieve_relevant_clauses ex None client threads = []
    \<and> merge_clauses corpus rag = corpus @ first_seen clause_id (set (map clause_id corpus)) rag
    \<and> subseq (first_seen clause_id (set (map clause_id corpus)) rag) rag
    \<and> set (map clause_id (merge_clauses corpus rag)) = set (map clause_id corpus) \<union> set (map clause_id rag)
    \<and> (distinct (map clause_id corpus) \<longrightarrow> distinct (map clause_id (merge_clauses corpus rag)))"
proof -
  have d: "distinct (map (hit_key ex) kept)" unfolding assms by (rule first_seen_distinct)
  have m: "distinct (map clause_id corpus) \<longrightarrow> distinct (map clause_id (merge_clauses corpus rag))"
    using first_seen_keys [of clause_id "clause_id ` set corpus" rag]
    by (auto simp: merge_first_seen first_seen_distinct)
  have s: "set (map clause_id (merge_clauses corpus rag)) = set (map clause_id corpus) \<union> set (map clause_id rag)"
    using first_seen_keys [of clause_id "clause_id ` set corpus" rag]
    by (auto simp: merge_first_seen)
  have k: "set (map (hit_key ex) kept) = set (map (hit_key ex) (retrieval_hits rbi client threads))"
    unfolding assms using first_seen_keys [of "hit_key ex" "{}" "retrieval_hits rbi client threads"]
    by simp
  have r: "retrieve_relevant_clauses ex (Some rbi) client threads = map (hit_clause ex) kept"
    unfolding assms by (rule retrieve_first_seen)
  have sk: "subseq kept (retrieval_hits rbi client threads)"
    unfolding assms by (rule first_seen_subseq)
  have n: "retrieve_relevant_clauses ex None client threads = []"
    by (simp add: retrieve_relevant_clauses_def)
  have ss: "subseq (first_seen clause_id (set (map clause_id corpus)) rag) rag"
    by (rule first_seen_subseq)
  from r sk d k distinct_rbi_ids [OF d] n merge_first_seen [of corpus rag] ss s m
  show ?thesis by blast
qed

theorem retrieval_deduplication_witness:
  "distinct (map clause_id corpus_sample)
   \<and> map clause_id (merge_clauses corpus_sample
        (retrieve_relevant_clauses extractors_sample (Some rbi_sample) (Some client_sample) turns_sample))
      = [''RBI-REC-01'', ''RBI-REC-04'', ''CLIENT-TRIGGER'']
   \<and> distinct (map clause_id (merge_clauses corpus_sample
        (retrieve_relevant_clauses extractors_sample (Some rbi_sample) (Some client_sample) turns_sample)))"
proof -
  have h: "distinct (map clause_id corpus_sample)" by code_simp
  have e: "map clause_id (merge_clauses corpus_sample
        (retrieve_relevant_clauses extractors_sample (Some rbi_sample) (Some client_sample) turns_sample))
      = [''RBI-REC-01'', ''RBI-REC-04'', ''CLIENT-TRIGGER'']" by code_simp
  from retrieval_deduplication [OF refl, where corpus = corpus_sample
      and rag = "retrieve_relevant_clauses extractors_sample (Some rbi_sample) (Some client_sample) turns_sample"
      and ex = extractors_sample and rbi = rbi_sample and client = "Some client_sample"
      and threads = turns_sample] h
  have "distinct (map clause_id (merge_clauses corpus_sample
        (retrieve_relevant_clauses extractors_sample (Some rbi_sample) (Some client_sample) turns_sample)))"
    by blast
  with h e show ?thesis by blast
qed

text \<open>
  Claim C5 as stated fails: two risk triggers found for one agent turn have different
  rule names and the same \<open>clause_id\<close>, and the retriever returns both.
\<close>

theorem client_triggers_share_clause_id:
  "map clause_id
     (retrieve_relevant_clauses extractors_sample (Some rbi_sample) (Some client_sample) turns_sample)
     = [''RBI-REC-01'', ''CLIENT-TRIGGER'', ''CLIENT-TRIGGER'']
   \<and> \<not> distinct (map clause_id
     (retrieve_relevant_clauses extractors_sample (Some rbi_sample) (Some client_sample) turns_sample))"
  by code_simp

section \<open>Properties of the temporal checker\<close>


























end
